theory Spec2Isabelle
  imports Complex_Main "HOL-Library.Char_ord" "HOL-Library.List_Lexorder"
begin

unbundle bit_operations_syntax

text \<open>
  A model of the journal pattern reflection engine: the parser that recovers an object
  from the model's reply (\<open>tryParseJsonLoose\<close>, \<open>stripCodeFences\<close>,
  \<open>extractJsonObjects\<close>, \<open>parseBestJsonFromModelText\<close>), the gate and the selection
  of entries, \<open>generateJournalPatterns\<close>, and the route handler with its cache. The
  definitions follow the source function by function; the theorems come after them.
\<close>

section \<open>Texts\<close>

text \<open>
  The program works on JavaScript strings, sequences of UTF-16 code units. The model
  writes a text as a \<^typ>\<open>string\<close>, one \<^typ>\<open>char\<close> per code unit, and so covers the
  code units 0 to 255 (Latin-1). The program's own texts hold two code units above that
  range, U+2019 (in the two neutral reflections) and U+2026 (the ellipsis of
  \<open>compactEntryText\<close>); they are written as the single characters 0x92 and 0x85, which,
  like the originals, are neither white space, nor letters, nor digits, and are left
  alone by \<open>toLowerCase\<close>.
\<close>

definition dquote :: char where "dquote = CHR 0x22"
definition squote :: char where "squote = CHR 0x27"
definition bslash :: char where "bslash = CHR 0x5C"
definition backtick :: char where "backtick = CHR 0x60"
definition newline :: char where "newline = CHR 0x0A"
definition rsquo :: char where "rsquo = CHR 0x92"
definition hellip :: char where "hellip = CHR 0x85"

definition cu :: "char \<Rightarrow> nat" where
  \<comment> \<open>the code unit of a character\<close>
  "cu c = of_char c"

definition isWs :: "char \<Rightarrow> bool" where
  \<comment> \<open>the class \<open>\s\<close> of regular expressions, which is also what \<open>trim\<close> removes\<close>
  "isWs c = (let n = cu c in (9 \<le> n \<and> n \<le> 13) \<or> n = 32 \<or> n = 160)"

definition isDigit :: "char \<Rightarrow> bool" where
  "isDigit c = (let n = cu c in 48 \<le> n \<and> n \<le> 57)"

definition isAlpha :: "char \<Rightarrow> bool" where
  "isAlpha c = (let n = cu c in (65 \<le> n \<and> n \<le> 90) \<or> (97 \<le> n \<and> n \<le> 122))"

definition isWordChar :: "char \<Rightarrow> bool" where
  \<comment> \<open>the class \<open>\w\<close>\<close>
  "isWordChar c = (isAlpha c \<or> isDigit c \<or> c = CHR ''_'')"

definition lowerChar :: "char \<Rightarrow> char" where
  "lowerChar c =
     (let n = cu c
      in if (65 \<le> n \<and> n \<le> 90) \<or> (192 \<le> n \<and> n \<le> 222 \<and> n \<noteq> 215)
         then char_of (n + 32) else c)"

definition toLowerCase :: "string \<Rightarrow> string" where
  "toLowerCase s = map lowerChar s"

definition trim :: "string \<Rightarrow> string" where
  "trim s = rev (dropWhile isWs (rev (dropWhile isWs s)))"

definition startsWith :: "string \<Rightarrow> string \<Rightarrow> bool" where
  "startsWith s p = (take (length p) s = p)"

fun includesStr :: "string \<Rightarrow> string \<Rightarrow> bool" where
  "includesStr [] p = (p = [])"
| "includesStr (c # cs) p = (startsWith (c # cs) p \<or> includesStr cs p)"

fun indexOf :: "string \<Rightarrow> string \<Rightarrow> nat option" where
  \<comment> \<open>\<open>s.indexOf(p)\<close>, with \<open>None\<close> for -1\<close>
  "indexOf [] p = (if p = [] then Some 0 else None)"
| "indexOf (c # cs) p =
     (if startsWith (c # cs) p then Some 0 else map_option Suc (indexOf cs p))"

definition indexOfFrom :: "string \<Rightarrow> string \<Rightarrow> nat \<Rightarrow> nat option" where
  \<comment> \<open>\<open>s.indexOf(p, from)\<close>\<close>
  "indexOfFrom s p from = map_option (\<lambda>i. i + from) (indexOf (drop from s) p)"

definition slice :: "string \<Rightarrow> nat \<Rightarrow> nat \<Rightarrow> string" where
  \<comment> \<open>\<open>s.slice(a, b)\<close> for indices that are not negative\<close>
  "slice s a b = take (b - a) (drop a s)"

definition join :: "string \<Rightarrow> string list \<Rightarrow> string" where
  "join sep xs = (case xs of [] \<Rightarrow> [] | y # ys \<Rightarrow> y @ concat (map (\<lambda>z. sep @ z) ys))"

fun replaceAll :: "(char option \<Rightarrow> string \<Rightarrow> (string \<times> nat) option) \<Rightarrow> char option \<Rightarrow> string \<Rightarrow> string" where
  \<comment> \<open>\<open>s.replace(re, ...)\<close> for a global expression that matches no empty text: the
      matcher gets the character before the position (for \<open>\b\<close>) and the text from
      it on, and answers the replacement and the length of the match\<close>
  "replaceAll m prev [] = []"
| "replaceAll m prev (c # cs) =
     (case m prev (c # cs) of
        Some (rep, n) \<Rightarrow> rep @ replaceAll m (Some (last (take n (c # cs)))) (drop (n - 1) cs)
      | None \<Rightarrow> c # replaceAll m (Some c) cs)"

section \<open>JSON values and \<open>JSON.parse\<close>\<close>

text \<open>
  \<open>JSON.parse\<close> is the platform's; it is modelled after ECMA-404 as a scanner that
  cuts the text into tokens and a stack machine that reads the tokens. A number is kept
  as the exact value of its decimal (the rounding to binary64 is not modelled), and an
  escape \<open>\uXXXX\<close> above 00FF denotes a code unit outside the model and is refused.
\<close>

datatype json =
    JNull
  | JBool bool
  | JNumber rat
  | JString string
  | JArray "json list"
  | JObject "(string \<times> json) list"

datatype token =
    TLBrace | TRBrace | TLBrack | TRBrack | TColon | TComma
  | TString string | TNumber rat | TTrue | TFalse | TNull

datatype lex_mode =
    LIdle
  | LStr string
  | LEsc string
  | LUni string string
  | LNum string
  | LWord string

definition jsonWs :: "char \<Rightarrow> bool" where
  "jsonWs c = (let n = cu c in n = 9 \<or> n = 10 \<or> n = 13 \<or> n = 32)"

definition simpleEscape :: "char \<Rightarrow> char option" where
  "simpleEscape c =
     (if c = dquote then Some dquote
      else if c = bslash then Some bslash
      else if c = CHR ''/'' then Some (CHR ''/'')
      else if c = CHR ''b'' then Some (CHR 0x08)
      else if c = CHR ''f'' then Some (CHR 0x0C)
      else if c = CHR ''n'' then Some (CHR 0x0A)
      else if c = CHR ''r'' then Some (CHR 0x0D)
      else if c = CHR ''t'' then Some (CHR 0x09)
      else None)"

definition hexVal :: "char \<Rightarrow> nat option" where
  "hexVal c =
     (let n = cu c
      in if 48 \<le> n \<and> n \<le> 57 then Some (n - 48)
         else if 65 \<le> n \<and> n \<le> 70 then Some (n - 55)
         else if 97 \<le> n \<and> n \<le> 102 then Some (n - 87)
         else None)"

definition hexNum :: "string \<Rightarrow> nat" where
  "hexNum hs = foldl (\<lambda>a c. 16 * a + (case hexVal c of Some v \<Rightarrow> v | None \<Rightarrow> 0)) 0 hs"

definition digitsVal :: "string \<Rightarrow> nat" where
  "digitsVal ds = foldl (\<lambda>a c. 10 * a + (cu c - 48)) 0 ds"

definition jsonNumber :: "string \<Rightarrow> rat option" where
  \<comment> \<open>\<open>-?(0|[1-9][0-9]*)(\.[0-9]+)?([eE][+-]?[0-9]+)?\<close> and the value it denotes\<close>
  "jsonNumber s =
     (let (neg, s1) = (case s of c # r \<Rightarrow> if c = CHR ''-'' then (True, r) else (False, s) | [] \<Rightarrow> (False, s));
          ip = takeWhile isDigit s1;
          s2 = dropWhile isDigit s1;
          (fp, s3) = (case s2 of
                        c # r \<Rightarrow> if c = CHR ''.'' then (Some (takeWhile isDigit r), dropWhile isDigit r)
                                 else (None, s2)
                      | [] \<Rightarrow> (None, s2));
          (ex, s4) = (case s3 of
                        c # r \<Rightarrow>
                          if c = CHR ''e'' \<or> c = CHR ''E'' then
                            (let (eneg, r') = (case r of
                                                 d # r2 \<Rightarrow> if d = CHR ''-'' then (True, r2)
                                                           else if d = CHR ''+'' then (False, r2)
                                                           else (False, r)
                                               | [] \<Rightarrow> (False, r))
                             in (Some (eneg, takeWhile isDigit r'), dropWhile isDigit r'))
                          else (None, s3)
                      | [] \<Rightarrow> (None, s3))
      in if ip = [] \<or> (1 < length ip \<and> take 1 ip = ''0'') \<or> fp = Some []
            \<or> (case ex of Some (_, ed) \<Rightarrow> ed = [] | None \<Rightarrow> False) \<or> s4 \<noteq> []
         then None
         else
           (let m = of_nat (digitsVal ip)
                    + (case fp of None \<Rightarrow> 0
                       | Some f \<Rightarrow> of_nat (digitsVal f) / 10 ^ length f);
                v = (case ex of None \<Rightarrow> m
                     | Some (eneg, ed) \<Rightarrow>
                         if eneg then m / 10 ^ digitsVal ed else m * 10 ^ digitsVal ed)
            in Some (if neg then - v else v)))"

definition numChar :: "char \<Rightarrow> bool" where
  "numChar c = (isDigit c \<or> c = CHR ''-'' \<or> c = CHR ''+'' \<or> c = CHR ''.'' \<or> c = CHR ''e'' \<or> c = CHR ''E'')"

definition finishNum :: "string \<Rightarrow> token option" where
  "finishNum acc = map_option TNumber (jsonNumber (rev acc))"

definition finishWord :: "string \<Rightarrow> token option" where
  "finishWord acc =
     (let w = rev acc
      in if w = ''true'' then Some TTrue
         else if w = ''false'' then Some TFalse
         else if w = ''null'' then Some TNull
         else None)"

definition lexIdle :: "char \<Rightarrow> (token list \<times> lex_mode) option" where
  "lexIdle c =
     (if jsonWs c then Some ([], LIdle)
      else if c = CHR ''{'' then Some ([TLBrace], LIdle)
      else if c = CHR ''}'' then Some ([TRBrace], LIdle)
      else if c = CHR ''['' then Some ([TLBrack], LIdle)
      else if c = CHR '']'' then Some ([TRBrack], LIdle)
      else if c = CHR '':'' then Some ([TColon], LIdle)
      else if c = CHR '','' then Some ([TComma], LIdle)
      else if c = dquote then Some ([], LStr [])
      else if c = CHR ''-'' \<or> isDigit c then Some ([], LNum [c])
      else if isAlpha c then Some ([], LWord [c])
      else None)"

fun lexStep :: "lex_mode \<Rightarrow> char \<Rightarrow> (token list \<times> lex_mode) option" where
  "lexStep LIdle c = lexIdle c"
| "lexStep (LStr acc) c =
     (if c = dquote then Some ([TString (rev acc)], LIdle)
      else if c = bslash then Some ([], LEsc acc)
      else if cu c < 32 then None
      else Some ([], LStr (c # acc)))"
| "lexStep (LEsc acc) c =
     (if c = CHR ''u'' then Some ([], LUni acc [])
      else (case simpleEscape c of None \<Rightarrow> None | Some x \<Rightarrow> Some ([], LStr (x # acc))))"
| "lexStep (LUni acc hs) c =
     (case hexVal c of
        None \<Rightarrow> None
      | Some _ \<Rightarrow>
          (let hs' = hs @ [c]
           in if length hs' = 4
              then (if hexNum hs' < 256 then Some ([], LStr (char_of (hexNum hs') # acc)) else None)
              else Some ([], LUni acc hs')))"
| "lexStep (LNum acc) c =
     (if numChar c then Some ([], LNum (c # acc))
      else (case finishNum acc of
              None \<Rightarrow> None
            | Some t \<Rightarrow> (case lexIdle c of None \<Rightarrow> None | Some (ts, m) \<Rightarrow> Some (t # ts, m))))"
| "lexStep (LWord acc) c =
     (if isAlpha c then Some ([], LWord (c # acc))
      else (case finishWord acc of
              None \<Rightarrow> None
            | Some t \<Rightarrow> (case lexIdle c of None \<Rightarrow> None | Some (ts, m) \<Rightarrow> Some (t # ts, m))))"

fun lexEnd :: "lex_mode \<Rightarrow> token list option" where
  "lexEnd LIdle = Some []"
| "lexEnd (LNum acc) = map_option (\<lambda>t. [t]) (finishNum acc)"
| "lexEnd (LWord acc) = map_option (\<lambda>t. [t]) (finishWord acc)"
| "lexEnd (LStr acc) = None"
| "lexEnd (LEsc acc) = None"
| "lexEnd (LUni acc hs) = None"

fun lexRun :: "lex_mode \<Rightarrow> string \<Rightarrow> token list option" where
  "lexRun m [] = lexEnd m"
| "lexRun m (c # cs) =
     (case lexStep m c of
        None \<Rightarrow> None
      | Some (ts, m') \<Rightarrow> map_option (\<lambda>r. ts @ r) (lexRun m' cs))"

datatype frame =
    FArr "json list"
  | FObj "(string \<times> json) list"
  | FKey "(string \<times> json) list" string

datatype pmode = PValue | PArrStart | PObjStart | PKey | PColon | PAfter | PDone json

fun setProp :: "string \<Rightarrow> json \<Rightarrow> (string \<times> json) list \<Rightarrow> (string \<times> json) list" where
  \<comment> \<open>a repeated key keeps its place and takes the later value\<close>
  "setProp k v [] = [(k, v)]"
| "setProp k v (p # ps) = (if fst p = k then (k, v) # ps else p # setProp k v ps)"

fun deliver :: "json \<Rightarrow> frame list \<Rightarrow> (pmode \<times> frame list) option" where
  "deliver v [] = Some (PDone v, [])"
| "deliver v (FArr xs # fs) = Some (PAfter, FArr (xs @ [v]) # fs)"
| "deliver v (FKey kvs k # fs) = Some (PAfter, FObj (setProp k v kvs) # fs)"
| "deliver v (FObj kvs # fs) = None"

fun startValue :: "frame list \<Rightarrow> token \<Rightarrow> (pmode \<times> frame list) option" where
  "startValue fs TLBrace = Some (PObjStart, FObj [] # fs)"
| "startValue fs TLBrack = Some (PArrStart, FArr [] # fs)"
| "startValue fs (TString s) = deliver (JString s) fs"
| "startValue fs (TNumber q) = deliver (JNumber q) fs"
| "startValue fs TTrue = deliver (JBool True) fs"
| "startValue fs TFalse = deliver (JBool False) fs"
| "startValue fs TNull = deliver JNull fs"
| "startValue fs TRBrace = None"
| "startValue fs TRBrack = None"
| "startValue fs TColon = None"
| "startValue fs TComma = None"

fun readKey :: "frame list \<Rightarrow> token \<Rightarrow> (pmode \<times> frame list) option" where
  "readKey (FObj kvs # fs) (TString k) = Some (PColon, FKey kvs k # fs)"
| "readKey fs t = None"

fun closeObj :: "frame list \<Rightarrow> (pmode \<times> frame list) option" where
  "closeObj (FObj kvs # fs) = deliver (JObject kvs) fs"
| "closeObj fs = None"

fun closeArr :: "frame list \<Rightarrow> (pmode \<times> frame list) option" where
  "closeArr (FArr xs # fs) = deliver (JArray xs) fs"
| "closeArr fs = None"

fun afterValue :: "frame list \<Rightarrow> token \<Rightarrow> (pmode \<times> frame list) option" where
  "afterValue (FArr xs # fs) TComma = Some (PValue, FArr xs # fs)"
| "afterValue (FArr xs # fs) TRBrack = closeArr (FArr xs # fs)"
| "afterValue (FObj kvs # fs) TComma = Some (PKey, FObj kvs # fs)"
| "afterValue (FObj kvs # fs) TRBrace = closeObj (FObj kvs # fs)"
| "afterValue fs t = None"

fun parseStep :: "pmode \<Rightarrow> frame list \<Rightarrow> token \<Rightarrow> (pmode \<times> frame list) option" where
  "parseStep PValue fs t = startValue fs t"
| "parseStep PArrStart fs t = (if t = TRBrack then closeArr fs else startValue fs t)"
| "parseStep PObjStart fs t = (if t = TRBrace then closeObj fs else readKey fs t)"
| "parseStep PKey fs t = readKey fs t"
| "parseStep PColon fs t = (if t = TColon then Some (PValue, fs) else None)"
| "parseStep PAfter fs t = afterValue fs t"
| "parseStep (PDone v) fs t = None"

fun parseTokens :: "pmode \<Rightarrow> frame list \<Rightarrow> token list \<Rightarrow> json option" where
  "parseTokens m fs [] = (case m of PDone v \<Rightarrow> Some v | _ \<Rightarrow> None)"
| "parseTokens m fs (t # ts) =
     (case parseStep m fs t of None \<Rightarrow> None | Some (m', fs') \<Rightarrow> parseTokens m' fs' ts)"

definition JSON_parse :: "string \<Rightarrow> json option" where
  \<comment> \<open>\<open>None\<close> is the SyntaxError\<close>
  "JSON_parse s = (case lexRun LIdle s of None \<Rightarrow> None | Some ts \<Rightarrow> parseTokens PValue [] ts)"

section \<open>The loose parser\<close>

definition reTrailingComma :: "char option \<Rightarrow> string \<Rightarrow> (string \<times> nat) option" where
  \<comment> \<open>\<open>/,\s*([}\]])/g\<close> to \<open>$1\<close>\<close>
  "reTrailingComma prev s =
     (case s of
        c # cs \<Rightarrow>
          if c = CHR '','' then
            (let w = takeWhile isWs cs
             in case dropWhile isWs cs of
                  b # _ \<Rightarrow> if b = CHR ''}'' \<or> b = CHR '']'' then Some ([b], length w + 2) else None
                | [] \<Rightarrow> None)
          else None
      | [] \<Rightarrow> None)"

definition reWord :: "string \<Rightarrow> string \<Rightarrow> char option \<Rightarrow> string \<Rightarrow> (string \<times> nat) option" where
  \<comment> \<open>\<open>/\bW\b/g\<close> to a fixed text, for a word \<open>W\<close> of word characters\<close>
  "reWord w rep prev s =
     (if startsWith s w
         \<and> (case prev of None \<Rightarrow> True | Some p \<Rightarrow> \<not> isWordChar p)
         \<and> (case drop (length w) s of [] \<Rightarrow> True | n # _ \<Rightarrow> \<not> isWordChar n)
      then Some (rep, length w) else None)"

definition isIdentStart :: "char \<Rightarrow> bool" where
  "isIdentStart c = (isAlpha c \<or> c = CHR ''_'')"

definition reBareKey :: "char option \<Rightarrow> string \<Rightarrow> (string \<times> nat) option" where
  \<comment> \<open>\<open>/([{\[,]\s*)([A-Za-z_][A-Za-z0-9_]*)(\s*:)/g\<close> to \<open>$1"$2"$3\<close>\<close>
  "reBareKey prev s =
     (case s of
        c # cs \<Rightarrow>
          if c = CHR ''{'' \<or> c = CHR ''['' \<or> c = CHR '','' then
            (let w1 = takeWhile isWs cs;
                 r1 = dropWhile isWs cs
             in case r1 of
                  i # _ \<Rightarrow>
                    if isIdentStart i then
                      (let ident = takeWhile isWordChar r1;
                           r2 = dropWhile isWordChar r1;
                           w2 = takeWhile isWs r2
                       in case dropWhile isWs r2 of
                            d # _ \<Rightarrow>
                              if d = CHR '':''
                              then Some (c # w1 @ [dquote] @ ident @ [dquote] @ w2 @ '':'',
                                         1 + length w1 + length ident + length w2 + 1)
                              else None
                          | [] \<Rightarrow> None)
                    else None
                | [] \<Rightarrow> None)
          else None
      | [] \<Rightarrow> None)"

definition escapeDquotes :: "string \<Rightarrow> string" where
  \<comment> \<open>\<open>s1.replace(/"/g, '\\"')\<close>\<close>
  "escapeDquotes s = concat (map (\<lambda>c. if c = dquote then [bslash, dquote] else [c]) s)"

definition isSqBody :: "char \<Rightarrow> bool" where
  \<comment> \<open>\<open>[^'\\]\<close>\<close>
  "isSqBody c = (c \<noteq> squote \<and> c \<noteq> bslash)"

definition reSingleQuotedValue :: "char option \<Rightarrow> string \<Rightarrow> (string \<times> nat) option" where
  \<comment> \<open>\<open>/:\s*'([^'\\]*)'/g\<close> to \<open>: "..."\<close>\<close>
  "reSingleQuotedValue prev s =
     (case s of
        c # cs \<Rightarrow>
          if c = CHR '':'' then
            (let w = takeWhile isWs cs
             in case dropWhile isWs cs of
                  q # r \<Rightarrow>
                    if q = squote then
                      (let s1 = takeWhile isSqBody r
                       in case dropWhile isSqBody r of
                            q2 # _ \<Rightarrow>
                              if q2 = squote
                              then Some ('': '' @ [dquote] @ escapeDquotes s1 @ [dquote],
                                         1 + length w + 1 + length s1 + 1)
                              else None
                          | [] \<Rightarrow> None)
                    else None
                | [] \<Rightarrow> None)
          else None
      | [] \<Rightarrow> None)"

definition reSingleQuotedLast :: "char option \<Rightarrow> string \<Rightarrow> (string \<times> nat) option" where
  \<comment> \<open>\<open>/,\s*'([^'\\]*)'\s*([}\]])/g\<close> to \<open>, "..."\<close> and the closing bracket\<close>
  "reSingleQuotedLast prev s =
     (case s of
        c # cs \<Rightarrow>
          if c = CHR '','' then
            (let w = takeWhile isWs cs
             in case dropWhile isWs cs of
                  q # r \<Rightarrow>
                    if q = squote then
                      (let s1 = takeWhile isSqBody r
                       in case dropWhile isSqBody r of
                            q2 # r2 \<Rightarrow>
                              if q2 = squote then
                                (let w2 = takeWhile isWs r2
                                 in case dropWhile isWs r2 of
                                      b # _ \<Rightarrow>
                                        if b = CHR ''}'' \<or> b = CHR '']''
                                        then Some ('', '' @ [dquote] @ escapeDquotes s1 @ [dquote] @ [b],
                                                   1 + length w + 1 + length s1 + 1 + length w2 + 1)
                                        else None
                                    | [] \<Rightarrow> None)
                              else None
                          | [] \<Rightarrow> None)
                    else None
                | [] \<Rightarrow> None)
          else None
      | [] \<Rightarrow> None)"

definition repair :: "string \<Rightarrow> string" where
  \<comment> \<open>the one pass of repairs of \<open>tryParseJsonLoose\<close>, in the source's order\<close>
  "repair input =
     (let s1 = replaceAll reTrailingComma None input;
          s2 = replaceAll (reWord ''True'' ''true'') None s1;
          s3 = replaceAll (reWord ''False'' ''false'') None s2;
          s4 = replaceAll (reWord ''None'' ''null'') None s3;
          s5 = replaceAll reBareKey None s4;
          s6 = replaceAll reSingleQuotedValue None s5
      in replaceAll reSingleQuotedLast None s6)"

definition tryParseJsonLoose :: "string \<Rightarrow> json" where
  \<comment> \<open>the source answers \<open>null\<close> both for the text \<open>null\<close> and when both parses fail\<close>
  "tryParseJsonLoose input =
     (case JSON_parse input of
        Some v \<Rightarrow> v
      | None \<Rightarrow> (case JSON_parse (repair input) of Some v \<Rightarrow> v | None \<Rightarrow> JNull))"

section \<open>Recovering an object from the reply\<close>

definition fence :: string where
  "fence = [backtick, backtick, backtick]"

definition stripLangTag :: "string \<Rightarrow> string" where
  \<comment> \<open>\<open>inside.replace(/^\s*json\s*\n/i, '')\<close>: the second \<open>\s*\<close> gives back what
      follows the last line feed of the white space after the tag\<close>
  "stripLangTag inside =
     (let a = dropWhile isWs inside
      in if toLowerCase (take 4 a) = ''json'' then
           (let r = drop 4 a;
                w = takeWhile isWs r
            in if newline \<in> set w
               then rev (takeWhile (\<lambda>c. c \<noteq> newline) (rev w)) @ dropWhile isWs r
               else inside)
         else inside)"

definition stripCodeFences :: "string \<Rightarrow> string" where
  "stripCodeFences text =
     (case indexOf text fence of
        None \<Rightarrow> trim text
      | Some fenceStart \<Rightarrow>
          (case indexOfFrom text fence (fenceStart + 3) of
             None \<Rightarrow> trim text
           | Some fenceEnd \<Rightarrow> trim (stripLangTag (slice text (fenceStart + 3) fenceEnd))))"

fun scanClose :: "int \<Rightarrow> bool \<Rightarrow> bool \<Rightarrow> string \<Rightarrow> nat option" where
  \<comment> \<open>the inner loop of \<open>extractJsonObjects\<close>: the number of characters read up to and
      with the brace that brings the depth back to 0, \<open>None\<close> when the text ends first\<close>
  "scanClose depth inString escaping [] = None"
| "scanClose depth inString escaping (ch # rest) =
     (if inString then
        (if escaping then map_option Suc (scanClose depth inString False rest)
         else if ch = bslash then map_option Suc (scanClose depth inString True rest)
         else if ch = dquote then map_option Suc (scanClose depth False escaping rest)
         else map_option Suc (scanClose depth inString escaping rest))
      else if ch = dquote then map_option Suc (scanClose depth True escaping rest)
      else if ch = CHR ''{'' then map_option Suc (scanClose (depth + 1) inString escaping rest)
      else if ch = CHR ''}'' then
        (if depth - 1 = 0 then Some 1
         else map_option Suc (scanClose (depth - 1) inString escaping rest))
      else map_option Suc (scanClose depth inString escaping rest))"

fun extractJsonObjects :: "string \<Rightarrow> string list" where
  \<comment> \<open>the outer loop: every position of the text is tried as a start\<close>
  "extractJsonObjects [] = []"
| "extractJsonObjects (c # cs) =
     (if c \<noteq> CHR ''{'' then extractJsonObjects cs
      else (case scanClose 0 False False (c # cs) of
              Some n \<Rightarrow> trim (take n (c # cs)) # extractJsonObjects cs
            | None \<Rightarrow> extractJsonObjects cs))"

record model_response =
  mShouldSpeak :: bool
  mTimeRange :: "string option"
  mReflection :: "string option"
  mThemes :: "string list"
  mInvitation :: "string option"

definition nullableString :: "json option \<Rightarrow> string option option" where
  \<comment> \<open>\<open>z.string().nullable()\<close> on a property that may be missing\<close>
  "nullableString v =
     (case v of
        Some JNull \<Rightarrow> Some None
      | Some (JString s) \<Rightarrow> Some (Some s)
      | _ \<Rightarrow> None)"

fun stringOf :: "json \<Rightarrow> string option" where
  "stringOf (JString s) = Some s"
| "stringOf v = None"

fun allStrings :: "json list \<Rightarrow> string list option" where
  "allStrings [] = Some []"
| "allStrings (v # vs) =
     (case stringOf v of
        None \<Rightarrow> None
      | Some s \<Rightarrow> (case allStrings vs of None \<Rightarrow> None | Some ss \<Rightarrow> Some (s # ss)))"

definition stringArrayDefault :: "json option \<Rightarrow> string list option" where
  \<comment> \<open>\<open>z.array(z.string()).default([])\<close>\<close>
  "stringArrayDefault v =
     (case v of
        None \<Rightarrow> Some []
      | Some (JArray xs) \<Rightarrow> allStrings xs
      | _ \<Rightarrow> None)"

definition modelResponseSchema :: "json \<Rightarrow> model_response option" where
  \<comment> \<open>\<open>modelResponseSchema.safeParse\<close>: \<open>None\<close> when \<open>success\<close> is false\<close>
  "modelResponseSchema j =
     (case j of
        JObject kvs \<Rightarrow>
          (case map_of kvs ''shouldSpeak'' of
             Some (JBool b) \<Rightarrow>
               (case nullableString (map_of kvs ''timeRange'') of
                  None \<Rightarrow> None
                | Some tr \<Rightarrow>
                    (case nullableString (map_of kvs ''reflection'') of
                       None \<Rightarrow> None
                     | Some rf \<Rightarrow>
                         (case stringArrayDefault (map_of kvs ''themes'') of
                            None \<Rightarrow> None
                          | Some th \<Rightarrow>
                              (case nullableString (map_of kvs ''invitation'') of
                                 None \<Rightarrow> None
                               | Some iv \<Rightarrow>
                                   Some \<lparr>mShouldSpeak = b, mTimeRange = tr, mReflection = rf,
                                         mThemes = th, mInvitation = iv\<rparr>))))
           | _ \<Rightarrow> None)
      | _ \<Rightarrow> None)"

fun bestLoop :: "string list \<Rightarrow> json \<Rightarrow> json" where
  \<comment> \<open>the loop of \<open>parseBestJsonFromModelText\<close> over the candidates in the order it
      visits them, with \<open>anyParsed\<close>\<close>
  "bestLoop [] anyParsed = anyParsed"
| "bestLoop (candidate # rest) anyParsed =
     (if candidate = [] then bestLoop rest anyParsed
      else (let parsed = tryParseJsonLoose candidate
            in if parsed = JNull then bestLoop rest anyParsed
               else if modelResponseSchema parsed \<noteq> None then parsed
               else bestLoop rest parsed))"

definition parseBestJsonFromModelText :: "string \<Rightarrow> json" where
  "parseBestJsonFromModelText text =
     (let normalized = stripCodeFences text;
          candidates = extractJsonObjects normalized
      in bestLoop (rev candidates) JNull)"

section \<open>Banned language\<close>

definition BANNED_SUBSTRINGS :: "string list" where
  "BANNED_SUBSTRINGS =
     [''postpartum depression'', ''ppd'', ''depression'', ''anxiety'', ''diagnos'',
      ''you should'', ''try '', ''it might help'', ''you need to'',
      ''everything will be okay'', ''you're doing great'', ''at least'',
      ''the good news is'', ''progress'', ''growth'', ''resilience'']"

definition includesBannedLanguage :: "string \<Rightarrow> bool" where
  "includesBannedLanguage text =
     (let lower = toLowerCase text in list_ex (\<lambda>s. includesStr lower s) BANNED_SUBSTRINGS)"

definition combinedText :: "string option \<Rightarrow> string list \<Rightarrow> string" where
  \<comment> \<open>\<open>[input.reflection ?? '', ...input.themes].join('\n')\<close>\<close>
  "combinedText reflection themes =
     join [newline] ((case reflection of None \<Rightarrow> [] | Some r \<Rightarrow> r) # themes)"

definition sanitizeOutput :: "string option \<Rightarrow> string list \<Rightarrow> (string option \<times> string list) option" where
  \<comment> \<open>\<open>None\<close> is \<open>{ ok: false }\<close>\<close>
  "sanitizeOutput reflection themes =
     (let combined = combinedText reflection themes
      in if trim combined = [] then Some (reflection, themes)
         else if includesBannedLanguage combined then None
         else Some (reflection, themes))"

section \<open>Entries, dates and the gate\<close>

record entry =
  entryDate :: string
  body :: string
  prompt1 :: string
  prompt2 :: string
  p1Answer :: string
  p2Answer :: string
  ventEntry :: bool

definition dayFromYear :: "int \<Rightarrow> int" where
  "dayFromYear y = 365 * (y - 1970) + (y - 1969) div 4 - (y - 1901) div 100 + (y - 1601) div 400"

definition inLeapYear :: "int \<Rightarrow> bool" where
  "inLeapYear y = ((y mod 4 = 0 \<and> y mod 100 \<noteq> 0) \<or> y mod 400 = 0)"

definition monthStart :: "int \<Rightarrow> nat \<Rightarrow> int" where
  \<comment> \<open>the day of the year on which month \<open>mn\<close> (0 to 11) begins\<close>
  "monthStart y mn =
     [0, 31, 59, 90, 120, 151, 181, 212, 243, 273, 304, 334] ! mn
     + (if 2 \<le> mn \<and> inLeapYear y then 1 else 0)"

definition makeDay :: "int \<Rightarrow> int \<Rightarrow> int \<Rightarrow> int" where
  \<comment> \<open>ECMAScript's MakeDay: a month outside 0 to 11 carries into the year, a day outside
      the month into the following days\<close>
  "makeDay year month date =
     (let ym = year + month div 12;
          mn = nat (month mod 12)
      in dayFromYear ym + monthStart ym mn + date - 1)"

definition Date_UTC :: "int \<Rightarrow> int \<Rightarrow> int \<Rightarrow> int" where
  \<comment> \<open>\<open>Date.UTC(y, m, d)\<close> in milliseconds; a year from 0 to 99 is read as 1900 + y\<close>
  "Date_UTC y m d =
     (let yr = (if 0 \<le> y \<and> y \<le> 99 then 1900 + y else y)
      in makeDay yr m d * 86400000)"

definition parseIsoDate :: "string \<Rightarrow> int option" where
  \<comment> \<open>the time value of the date, \<open>None\<close> for \<open>null\<close>; the pattern is
      \<open>/^(\d{4})-(\d{2})-(\d{2})$/\<close>\<close>
  "parseIsoDate isoText =
     (if length isoText = 10 \<and> list_all isDigit (take 4 isoText) \<and> isoText ! 4 = CHR ''-''
         \<and> list_all isDigit (slice isoText 5 7) \<and> isoText ! 7 = CHR ''-''
         \<and> list_all isDigit (slice isoText 8 10)
      then (let y = int (digitsVal (take 4 isoText));
                mo = int (digitsVal (slice isoText 5 7));
                d = int (digitsVal (slice isoText 8 10))
            in Some (Date_UTC y (mo - 1) d))
      else None)"

definition computeSpanDays :: "entry list \<Rightarrow> int option" where
  "computeSpanDays entries =
     (case entries of
        [] \<Rightarrow> None
      | e # es \<Rightarrow>
          (let first = entryDate e;
               lst = entryDate (last (e # es))
           in if first = [] \<or> lst = [] then None
              else (case parseIsoDate first of
                      None \<Rightarrow> None
                    | Some a \<Rightarrow>
                        (case parseIsoDate lst of
                           None \<Rightarrow> None
                         | Some b \<Rightarrow> Some ((b - a) div (24 * 60 * 60 * 1000))))))"

definition describeTimeRange :: "int option \<Rightarrow> string" where
  "describeTimeRange spanDays =
     (case spanDays of
        None \<Rightarrow> ''over the past week''
      | Some n \<Rightarrow>
          if 20 \<le> n then ''over the past few weeks''
          else if 13 \<le> n then ''over the past two weeks''
          else ''over the past week'')"

definition nonVentOf :: "entry list \<Rightarrow> entry list" where
  \<comment> \<open>\<open>entries.filter((e) => !e.ventEntry)\<close>\<close>
  "nonVentOf entries = filter (\<lambda>e. \<not> ventEntry e) entries"

definition shouldAttemptLongitudinalAnalysis :: "entry list \<Rightarrow> bool" where
  "shouldAttemptLongitudinalAnalysis entries =
     (let nonVent = nonVentOf entries
      in if length nonVent < 4 then False
         else (case computeSpanDays nonVent of
                 None \<Rightarrow> False
               | Some spanDays \<Rightarrow> if spanDays < 6 then False else True))"

section \<open>Selecting the entries sent to the model\<close>

definition labelled :: "string \<Rightarrow> string \<Rightarrow> string" where
  \<comment> \<open>\<open>x?.trim() ? `L: ${x.trim()}` : ''\<close>\<close>
  "labelled l x = (if trim x = [] then [] else l @ '': '' @ trim x)"

definition compactEntryText :: "entry \<Rightarrow> string" where
  "compactEntryText e =
     (let parts = filter (\<lambda>p. p \<noteq> [])
                    [trim (body e), labelled ''P1'' (prompt1 e), labelled ''A1'' (p1Answer e),
                     labelled ''P2'' (prompt2 e), labelled ''A2'' (p2Answer e)];
          combined = join [newline] parts
      in if 900 < length combined then take 900 combined @ [hellip] else combined)"

definition bound :: "entry \<Rightarrow> entry" where
  \<comment> \<open>the entry with its fields cut to the caps\<close>
  "bound e =
     e\<lparr>body := take 500 (body e), prompt1 := take 140 (prompt1 e), prompt2 := take 140 (prompt2 e),
       p1Answer := take 260 (p1Answer e), p2Answer := take 260 (p2Answer e)\<rparr>"

fun pickLoop :: "entry list \<Rightarrow> entry list \<Rightarrow> nat \<Rightarrow> entry list" where
  \<comment> \<open>the loop over \<open>candidatesNewestFirst\<close>, with \<open>pickedNewestFirst\<close> and
      \<open>usedChars\<close>\<close>
  "pickLoop [] picked usedChars = picked"
| "pickLoop (e # es) picked usedChars =
     (if 30 \<le> length picked then picked
      else (let bounded = bound e;
                text = compactEntryText bounded;
                cost = 40 + length text
            in if 0 < length picked \<and> 8000 < usedChars + cost then picked
               else pickLoop es (picked @ [bounded]) (usedChars + cost)))"

definition selectEntriesForModel :: "entry list \<Rightarrow> entry list" where
  "selectEntriesForModel entries =
     (let nonVent = filter (\<lambda>e. \<not> ventEntry e) entries;
          vent = filter (\<lambda>e. ventEntry e) entries;
          candidatesNewestFirst = rev nonVent @ take 6 (rev vent);
          pickedNewestFirst = pickLoop candidatesNewestFirst [] 0
      in rev pickedNewestFirst)"

definition cost :: "entry \<Rightarrow> nat" where
  \<comment> \<open>what the loop charges for a picked entry: \<open>40 + text.length\<close>\<close>
  "cost e = 40 + length (compactEntryText e)"

section \<open>\<open>generateJournalPatterns\<close>\<close>

text \<open>
  The one call to the provider is the program's only input besides the entries: what
  \<open>runOnce\<close> gets back (a reply text with its finish reason and part count, or a
  failure) is a field of the environment, and so is the model name that
  \<open>resolveModelName\<close> settles on. The request text of \<open>buildGeminiRequest\<close> goes to
  the provider only and is not modelled. The function answers its result together with
  the calls it made, in order; logging is left out. The entries are sorted with
  \<open>localeCompare\<close>, modelled as the comparison of code units, which is what it does on
  dates written \<open>YYYY-MM-DD\<close>; the sort is stable, as the platform's is.
\<close>

datatype reason =
    not_enough_entries | not_enough_span | model_silence | rate_limited | model_error
  | banned_language | invalid_json | invalid_shape | empty_reflection | spoke

datatype debug_detail =
    NoDetail
  | ErrorDetail "int option" string "nat option"
  | OutputDetail "string option" nat string

record debug_info =
  attempted :: bool
  reason :: reason
  entriesCount :: nat
  spanDays :: "int option"
  modelName :: "string option"
  detail :: debug_detail

record pattern_value =
  shouldSpeak :: bool
  reflection :: "string option"
  themes :: "string list"
  invitation :: "string option"
  timeRange :: "string option"
  debug :: "debug_info option"

datatype provider_outcome =
    Replied string "string option" "nat option"
  | Failed "int option" string "nat option"

datatype model_attempt =
    AttemptOk string string "string option" "nat option"
  | AttemptFailed string "int option" string "nat option"

datatype effect = ResolveModelName | GenerateContent string

record gen_env =
  GEMINI_API_KEY :: "string option"
  resolvedModelName :: string
  provider :: provider_outcome

definition runOnce :: "gen_env \<Rightarrow> string \<Rightarrow> model_attempt" where
  "runOnce env name =
     (case provider env of
        Replied text finishReason partsCount \<Rightarrow> AttemptOk name text finishReason partsCount
      | Failed errorStatus errorMessage retryAfterSeconds \<Rightarrow>
          AttemptFailed name errorStatus errorMessage retryAfterSeconds)"

definition silent :: "debug_info option \<Rightarrow> pattern_value" where
  "silent d = \<lparr>shouldSpeak = False, reflection = None, themes = [], invitation = None,
               timeRange = None, debug = d\<rparr>"

definition attemptDebug :: "bool \<Rightarrow> reason \<Rightarrow> entry list \<Rightarrow> string \<Rightarrow> debug_detail \<Rightarrow> debug_info option" where
  \<comment> \<open>the \<open>debug\<close> object of the returns that follow the call\<close>
  "attemptDebug dbg r entries name d =
     (if dbg
      then Some \<lparr>attempted = True, reason = r, entriesCount = length (nonVentOf entries),
                 spanDays = computeSpanDays (nonVentOf entries), modelName = Some name, detail = d\<rparr>
      else None)"

definition bannedReflection :: "string \<Rightarrow> string" where
  "bannedReflection tr =
     tr @ '', I'' @ [rsquo] @ ''m noticing some repeating threads, but I can'' @ [rsquo]
        @ ''t put them into words cleanly right now.''"

definition silenceReflection :: "string \<Rightarrow> string" where
  "silenceReflection tr = tr @ '', I'' @ [rsquo] @ ''m not seeing a clear repeating pattern yet.''"

definition interpretAttempt :: "entry list \<Rightarrow> bool \<Rightarrow> model_attempt \<Rightarrow> pattern_value" where
  \<comment> \<open>\<open>generateJournalPatterns\<close> from \<open>if (!attempt1.ok)\<close> on\<close>
  "interpretAttempt entries dbg attempt1 =
     (case attempt1 of
        AttemptFailed name errorStatus errorMessage retryAfterSeconds \<Rightarrow>
          silent (attemptDebug dbg (if errorStatus = Some 429 then rate_limited else model_error)
                    entries name (ErrorDetail errorStatus errorMessage retryAfterSeconds))
      | AttemptOk name text finishReason partsCount \<Rightarrow>
          (let parsedJson = parseBestJsonFromModelText text;
               out = OutputDetail finishReason (length text) (take 600 (stripCodeFences text))
           in if parsedJson = JNull then silent (attemptDebug dbg invalid_json entries name out)
              else
                (case modelResponseSchema parsedJson of
                   None \<Rightarrow> silent (attemptDebug dbg invalid_shape entries name out)
                 | Some parsed \<Rightarrow>
                     (case sanitizeOutput (mReflection parsed) (mThemes parsed) of
                        None \<Rightarrow>
                          (let tr = describeTimeRange (computeSpanDays (nonVentOf entries))
                           in \<lparr>shouldSpeak = True, reflection = Some (bannedReflection tr),
                                themes = [], invitation = None, timeRange = Some tr,
                                debug = attemptDebug dbg banned_language entries name out\<rparr>)
                      | Some (sReflection, sThemes) \<Rightarrow>
                          if \<not> mShouldSpeak parsed then
                            (let tr = describeTimeRange (computeSpanDays (nonVentOf entries))
                             in \<lparr>shouldSpeak = True, reflection = Some (silenceReflection tr),
                                  themes = [], invitation = None, timeRange = Some tr,
                                  debug = attemptDebug dbg model_silence entries name out\<rparr>)
                          else
                            (let r = trim (case sReflection of None \<Rightarrow> [] | Some x \<Rightarrow> x)
                             in if r = [] then silent (attemptDebug dbg empty_reflection entries name out)
                                else
                                  \<lparr>shouldSpeak = True, reflection = Some r,
                                   themes = filter (\<lambda>t. t \<noteq> []) (map trim sThemes),
                                   invitation = None,
                                   timeRange = (case mTimeRange parsed of
                                                  None \<Rightarrow> None
                                                | Some x \<Rightarrow> if trim x = [] then None else Some (trim x)),
                                   debug = attemptDebug dbg spoke entries name out\<rparr>)))))"

definition generateJournalPatterns :: "gen_env \<Rightarrow> entry list \<Rightarrow> bool \<Rightarrow> (string + pattern_value) \<times> effect list" where
  \<comment> \<open>\<open>Inl\<close> is \<open>{ ok: false, error: { message } }\<close>, \<open>Inr\<close> is \<open>{ ok: true, value }\<close>\<close>
  "generateJournalPatterns env entriesAll dbg =
     (let entries = sort_key entryDate entriesAll
      in if \<not> shouldAttemptLongitudinalAnalysis entries then
           (let nonVent = nonVentOf entries;
                sd = computeSpanDays nonVent
            in (Inr (silent
                  (if dbg
                   then Some \<lparr>attempted = False,
                              reason = (if length nonVent < 4 then not_enough_entries else not_enough_span),
                              entriesCount = length nonVent, spanDays = sd, modelName = None,
                              detail = NoDetail\<rparr>
                   else None)), []))
         else if GEMINI_API_KEY env = None \<or> GEMINI_API_KEY env = Some [] then
           (Inl ''Gemini is not configured.'', [])
         else
           (let name = resolvedModelName env
            in (Inr (interpretAttempt entries dbg (runOnce env name)),
                [ResolveModelName, GenerateContent name])))"

section \<open>The route handler and its cache\<close>

text \<open>
  The handler's collaborators are fields of the world it runs in: whether the process
  runs in production, what the authentication service says of a token, what the store
  answers for a user (an error message or the rows, newest first), the provider, and
  the three readings of the clock. The cache is the state; the handler answers its
  response, the cache after the request, and the provider calls made.
\<close>

record db_row =
  entry_date :: string
  db_body :: string
  vent_entry :: "bool option"
  prompt_1 :: "string option"
  prompt_2 :: "string option"
  p1_answer :: "string option"
  p2_answer :: "string option"

record cached_patterns =
  atMs :: int
  fingerprint :: string
  cachedValue :: pattern_value

type_synonym cache = "string \<rightharpoonup> cached_patterns"

definition CACHE_TTL_MS :: int where
  "CACHE_TTL_MS = 5 * 60 * 1000"

definition isEmptySilence :: "pattern_value \<Rightarrow> bool" where
  "isEmptySilence v =
     (shouldSpeak v = False \<and> reflection v = None \<and> invitation v = None \<and> timeRange v = None
      \<and> length (themes v) = 0)"

definition hexDigit :: "nat \<Rightarrow> char" where
  "hexDigit d = ''0123456789abcdef'' ! d"

function toHex :: "int \<Rightarrow> string" where
  \<comment> \<open>\<open>n.toString(16)\<close> for \<open>n\<close> that is not negative\<close>
  "toHex n = (if n < 16 then [hexDigit (nat n)] else toHex (n div 16) @ [hexDigit (nat (n mod 16))])"
  by pat_completeness auto
termination
  by (relation "measure nat") auto

fun toDecimal :: "nat \<Rightarrow> string" where
  "toDecimal n = (if n < 10 then [hexDigit n] else toDecimal (n div 10) @ [hexDigit (n mod 10)])"

definition toInt32 :: "int \<Rightarrow> int" where
  \<comment> \<open>what \<open>^\<close> makes of its operand: the value modulo \<open>2^32\<close>, read as signed\<close>
  "toInt32 x = (x + 2147483648) mod 4294967296 - 2147483648"

definition hashLoop :: "string \<Rightarrow> int" where
  \<comment> \<open>\<open>h = (h * 33) ^ input.charCodeAt(i)\<close>, from 5381\<close>
  "hashLoop input = foldl (\<lambda>h c. toInt32 (h * 33) XOR int (cu c)) 5381 input"

definition stableHash :: "string \<Rightarrow> string" where
  \<comment> \<open>\<open>(h >>> 0).toString(16)\<close>\<close>
  "stableHash input = toHex (hashLoop input mod 4294967296)"

definition computeEntriesFingerprint :: "db_row list \<Rightarrow> string" where
  "computeEntriesFingerprint rows =
     (let newestDate = (case rows of [] \<Rightarrow> [] | r # _ \<Rightarrow> entry_date r);
          newestBody = (case rows of [] \<Rightarrow> [] | r # _ \<Rightarrow> db_body r);
          sample = take 120 newestBody
      in stableHash (toDecimal (length rows) @ ''|'' @ newestDate @ ''|'' @ sample))"

definition isLineTerminator :: "char \<Rightarrow> bool" where
  "isLineTerminator c = (cu c = 10 \<or> cu c = 13)"

definition getBearerToken :: "string option \<Rightarrow> string option" where
  \<comment> \<open>the header is matched against \<open>/^Bearer\s+(.+)$/i\<close>\<close>
  "getBearerToken auth =
     (case auth of
        None \<Rightarrow> None
      | Some a \<Rightarrow>
          if toLowerCase (take 6 a) = ''bearer'' then
            (let r = drop 6 a;
                 w = takeWhile isWs r;
                 rest = dropWhile isWs r
             in if w \<noteq> [] \<and> rest \<noteq> [] \<and> \<not> list_ex isLineTerminator rest
                then (if trim rest = [] then None else Some (trim rest))
                else None)
          else None)"

datatype auth_outcome = AuthError | NoUser | User string

record request =
  authorization :: "string option"
  debugParam :: bool
  refreshParam :: bool

record world =
  production :: bool
  getUser :: "string \<Rightarrow> auth_outcome"
  journal_rows :: "string \<Rightarrow> string + db_row list"
  genEnv :: gen_env
  nowAtLookup :: int
  nowAtFallback :: int
  nowAtStore :: int

record debug_meta =
  totalCount :: nat
  ventCount :: nat
  nonVentCount :: nat

record cache_meta =
  servedFromCache :: bool
  ageSeconds :: int
  entriesFingerprint :: "string option"

datatype payload =
    ErrorBody string
  | Patterns pattern_value
  | PatternsWithMeta pattern_value debug_meta "cache_meta option"

record response =
  status :: nat
  payload :: payload

definition rowToEntry :: "db_row \<Rightarrow> entry" where
  "rowToEntry r =
     \<lparr>entryDate = entry_date r, body = db_body r,
      prompt1 = (case prompt_1 r of None \<Rightarrow> [] | Some x \<Rightarrow> x),
      prompt2 = (case prompt_2 r of None \<Rightarrow> [] | Some x \<Rightarrow> x),
      p1Answer = (case p1_answer r of None \<Rightarrow> [] | Some x \<Rightarrow> x),
      p2Answer = (case p2_answer r of None \<Rightarrow> [] | Some x \<Rightarrow> x),
      ventEntry = (case vent_entry r of None \<Rightarrow> False | Some b \<Rightarrow> b)\<rparr>"

definition metaOf :: "db_row list \<Rightarrow> debug_meta" where
  "metaOf rows =
     (let total = length rows;
          vents = length (filter (\<lambda>r. case vent_entry r of None \<Rightarrow> False | Some b \<Rightarrow> b) rows)
      in \<lparr>totalCount = total, ventCount = vents, nonVentCount = total - vents\<rparr>)"

definition fresh :: "cached_patterns \<Rightarrow> int \<Rightarrow> bool" where
  \<comment> \<open>\<open>ageMs >= 0 && ageMs <= CACHE_TTL_MS\<close> for \<open>ageMs = Date.now() - cached.atMs\<close>\<close>
  "fresh c now = (0 \<le> now - atMs c \<and> now - atMs c \<le> CACHE_TTL_MS)"

definition serveCached :: "bool \<Rightarrow> db_row list \<Rightarrow> cached_patterns \<Rightarrow> int \<Rightarrow> string option \<Rightarrow> response" where
  \<comment> \<open>the two returns of a cached value, plain and with the debug fields spread in\<close>
  "serveCached dbg rows c now fp =
     (if \<not> dbg then \<lparr>status = 200, payload = Patterns (cachedValue c)\<rparr>
      else \<lparr>status = 200,
            payload = PatternsWithMeta (cachedValue c) (metaOf rows)
                        (Some \<lparr>servedFromCache = True, ageSeconds = (now - atMs c) div 1000,
                               entriesFingerprint = fp\<rparr>)\<rparr>)"

definition generateAndStore :: "world \<Rightarrow> cache \<Rightarrow> bool \<Rightarrow> string \<Rightarrow> db_row list \<Rightarrow> string \<Rightarrow> response \<times> cache \<times> effect list" where
  \<comment> \<open>\<open>GET\<close> from \<open>const entriesAll = ...\<close> on\<close>
  "generateAndStore w cache dbg uid rows fp =
     (let entriesAll = rev (map rowToEntry rows);
          (patterns, effects) = generateJournalPatterns (genEnv w) entriesAll dbg
      in case patterns of
           Inl message \<Rightarrow>
             (\<lparr>status = (if message = ''Gemini is not configured.'' then 503 else 500),
               payload = ErrorBody message\<rparr>, cache, effects)
         | Inr v \<Rightarrow>
             (case (if isEmptySilence v
                    then (case cache uid of
                            Some c \<Rightarrow> if fresh c (nowAtFallback w) then Some c else None
                          | None \<Rightarrow> None)
                    else None) of
                Some c \<Rightarrow> (serveCached dbg rows c (nowAtFallback w) None, cache, effects)
              | None \<Rightarrow>
                  (let cache' = cache(uid \<mapsto> \<lparr>atMs = nowAtStore w, fingerprint = fp, cachedValue = v\<rparr>)
                   in if \<not> dbg then (\<lparr>status = 200, payload = Patterns v\<rparr>, cache', effects)
                      else (\<lparr>status = 200, payload = PatternsWithMeta v (metaOf rows) None\<rparr>,
                            cache', effects))))"

definition GET :: "world \<Rightarrow> cache \<Rightarrow> request \<Rightarrow> response \<times> cache \<times> effect list" where
  "GET w cache req =
     (let dbg = (\<not> production w \<and> debugParam req);
          refresh = refreshParam req
      in case getBearerToken (authorization req) of
           None \<Rightarrow> (\<lparr>status = 401, payload = ErrorBody ''Missing auth token.''\<rparr>, cache, [])
         | Some token \<Rightarrow>
             (case getUser w token of
                AuthError \<Rightarrow> (\<lparr>status = 401, payload = ErrorBody ''Invalid auth token.''\<rparr>, cache, [])
              | NoUser \<Rightarrow> (\<lparr>status = 401, payload = ErrorBody ''Not signed in.''\<rparr>, cache, [])
              | User uid \<Rightarrow>
                  (case journal_rows w uid of
                     Inl message \<Rightarrow> (\<lparr>status = 500, payload = ErrorBody message\<rparr>, cache, [])
                   | Inr rows \<Rightarrow>
                       (let fp = computeEntriesFingerprint rows
                        in case (if \<not> refresh
                                 then (case cache uid of
                                         Some c \<Rightarrow>
                                           if fingerprint c = fp \<and> fresh c (nowAtLookup w)
                                           then Some c else None
                                       | None \<Rightarrow> None)
                                 else None) of
                             Some c \<Rightarrow> (serveCached dbg rows c (nowAtLookup w) (Some fp), cache, [])
                           | None \<Rightarrow> generateAndStore w cache dbg uid rows fp))))"

section \<open>The recovery steps in the words of their description\<close>

text \<open>
  The description of the parser speaks of candidates that parse and of candidates that
  match the expected shape, and of a scan with three states that counts brace depth
  outside strings. These definitions say that much, apart from the program, to compare
  the two.
\<close>

definition candidateParses :: "string \<Rightarrow> bool" where
  "candidateParses c = (c \<noteq> [] \<and> tryParseJsonLoose c \<noteq> JNull)"

definition candidateMatches :: "string \<Rightarrow> bool" where
  "candidateMatches c = (candidateParses c \<and> modelResponseSchema (tryParseJsonLoose c) \<noteq> None)"

text \<open>The scan as a machine: the state and the depth after each character.\<close>

datatype scan_state = Normal | InString | Escaped

fun scanStep :: "scan_state \<times> int \<Rightarrow> char \<Rightarrow> scan_state \<times> int" where
  "scanStep (Normal, d) c =
     (if c = dquote then (InString, d)
      else if c = CHR ''{'' then (Normal, d + 1)
      else if c = CHR ''}'' then (Normal, d - 1)
      else (Normal, d))"
| "scanStep (InString, d) c =
     (if c = bslash then (Escaped, d) else if c = dquote then (Normal, d) else (InString, d))"
| "scanStep (Escaped, d) c = (InString, d)"

text \<open>
  \<open>closesAt start s n\<close>: the \<open>n\<close>-th character of \<open>s\<close> is a closing brace read outside
  a string that brings the depth to 0. \<open>firstClose\<close> is the least such \<open>n\<close>, and
  \<open>objectAt s\<close> the balanced object that begins \<open>s\<close>, when \<open>s\<close> begins with a brace.
\<close>

definition closesAt :: "scan_state \<times> int \<Rightarrow> string \<Rightarrow> nat \<Rightarrow> bool" where
  "closesAt start s n =
     (0 < n \<and> n \<le> length s \<and> s ! (n - 1) = CHR ''}''
      \<and> fst (foldl scanStep start (take (n - 1) s)) = Normal
      \<and> snd (foldl scanStep start (take n s)) = 0)"

definition firstClose :: "scan_state \<times> int \<Rightarrow> string \<Rightarrow> nat option" where
  "firstClose start s = find (closesAt start s) [1..<Suc (length s)]"

definition objectAt :: "string \<Rightarrow> string option" where
  "objectAt s =
     (case s of
        [] \<Rightarrow> None
      | c # _ \<Rightarrow> if c = CHR ''{'' then map_option (\<lambda>n. take n s) (firstClose (Normal, 0) s) else None)"

fun suffixesOf :: "string \<Rightarrow> string list" where
  "suffixesOf [] = []"
| "suffixesOf (c # cs) = (c # cs) # suffixesOf cs"

text \<open>
  The top-level objects of a text, read in one pass: an object is collected from the
  brace that takes the depth from 0 to 1 to the brace that takes it back to 0.
\<close>

fun topScan :: "scan_state \<Rightarrow> nat \<Rightarrow> string \<Rightarrow> string \<Rightarrow> string list" where
  "topScan st depth cur [] = []"
| "topScan st depth cur (c # cs) =
     (let cur' = (if 0 < depth then cur @ [c] else cur)
      in case st of
           Escaped \<Rightarrow> topScan InString depth cur' cs
         | InString \<Rightarrow>
             topScan (if c = bslash then Escaped else if c = dquote then Normal else InString)
               depth cur' cs
         | Normal \<Rightarrow>
             if c = dquote then topScan InString depth cur' cs
             else if c = CHR ''{'' then topScan Normal (depth + 1) (cur @ [c]) cs
             else if c = CHR ''}'' then
               (if depth = 1 then (cur @ [c]) # topScan Normal 0 [] cs
                else topScan Normal (depth - 1) cur' cs)
             else topScan Normal depth cur' cs)"

definition specTopLevelObjects :: "string \<Rightarrow> string list" where
  "specTopLevelObjects text = topScan Normal 0 [] text"

definition enc :: "bool \<Rightarrow> bool \<Rightarrow> scan_state" where
  \<comment> \<open>the two flags of the program's loop, \<open>inString\<close> and \<open>escaping\<close>, as a state\<close>
  "enc inString escaping = (if inString then (if escaping then Escaped else InString) else Normal)"

section \<open>Sample inputs\<close>

definition sampleEntry :: "string \<Rightarrow> bool \<Rightarrow> entry" where
  "sampleEntry d v =
     \<lparr>entryDate = d, body = ''Slept badly again.'', prompt1 = ''What feels loud?'', prompt2 = [],
      p1Answer = ''The evenings.'', p2Answer = [], ventEntry = v\<rparr>"

definition twoEntries :: "entry list" where
  "twoEntries = [sampleEntry ''2024-01-01'' False, sampleEntry ''2024-01-03'' False]"

definition fiveEntries :: "entry list" where
  \<comment> \<open>four entries over ten days and one vent entry among them, oldest first\<close>
  "fiveEntries =
     [sampleEntry ''2024-01-01'' False, sampleEntry ''2024-01-03'' False,
      sampleEntry ''2024-01-04'' True, sampleEntry ''2024-01-05'' False,
      sampleEntry ''2024-01-11'' False]"

definition sampleEnv :: "string \<Rightarrow> gen_env" where
  \<comment> \<open>a configured provider that replies with the given text\<close>
  "sampleEnv reply =
     \<lparr>GEMINI_API_KEY = Some ''key'', resolvedModelName = ''models/gemini-2.0-flash'',
      provider = Replied reply (Some ''STOP'') (Some 1)\<rparr>"

definition bannedReply :: string where
  \<open>bannedReply = ''{"shouldSpeak":true,"timeRange":"over the past week","reflection":"You should rest more.","themes":["sleep"],"invitation":null}''\<close>

definition repeatedThemesReply :: string where
  \<open>repeatedThemesReply = ''{"shouldSpeak":true,"timeRange":"over the past week","reflection":"Evenings recur.","themes":["tired","tired","sleep"," evenings "],"invitation":null}''\<close>

definition noTimeRangeReply :: string where
  \<open>noTimeRangeReply = ''{"shouldSpeak":true,"timeRange":null,"reflection":"Evenings recur.","themes":[],"invitation":null}''\<close>

definition sampleRow :: "string \<Rightarrow> db_row" where
  "sampleRow d =
     \<lparr>entry_date = d, db_body = ''Slept badly again.'', vent_entry = None,
      prompt_1 = Some ''What feels loud?'', prompt_2 = None, p1_answer = Some ''The evenings.'',
      p2_answer = None\<rparr>"

definition twoRows :: "db_row list" where
  \<comment> \<open>newest first, as the store answers\<close>
  "twoRows = [sampleRow ''2024-01-03'', sampleRow ''2024-01-01'']"

definition goodValue :: pattern_value where
  "goodValue =
     \<lparr>shouldSpeak = True, reflection = Some ''Evenings recur.'', themes = [''sleep''],
      invitation = None, timeRange = Some ''over the past week'', debug = None\<rparr>"

definition sampleWorld :: "bool \<Rightarrow> world" where
  "sampleWorld inProduction =
     \<lparr>production = inProduction,
      getUser = (\<lambda>t. if t = ''token-1'' then User ''user-1'' else AuthError),
      journal_rows = (\<lambda>u. if u = ''user-1'' then Inr twoRows else Inl ''permission denied''),
      genEnv = sampleEnv ''{}'',
      nowAtLookup = 1700000060000, nowAtFallback = 1700000060500, nowAtStore = 1700000061000\<rparr>"

definition sampleRequest :: "bool \<Rightarrow> request" where
  "sampleRequest dbg =
     \<lparr>authorization = Some ''Bearer token-1'', debugParam = dbg, refreshParam = False\<rparr>"

definition cacheWith :: "int \<Rightarrow> string \<Rightarrow> pattern_value \<Rightarrow> cache" where
  "cacheWith stamp fp v = [''user-1'' \<mapsto> \<lparr>atMs = stamp, fingerprint = fp, cachedValue = v\<rparr>]"

definition fiveRows :: "db_row list" where
  \<comment> \<open>the rows of \<open>fiveEntries\<close>, newest first\<close>
  "fiveRows =
     [sampleRow ''2024-01-11'', sampleRow ''2024-01-05'',
      (sampleRow ''2024-01-04'')\<lparr>vent_entry := Some True\<rparr>,
      sampleRow ''2024-01-03'', sampleRow ''2024-01-01'']"

definition failingWorld :: world where
  \<comment> \<open>the store answers \<open>fiveRows\<close> and the provider fails with status 429\<close>
  "failingWorld =
     (sampleWorld True)
       \<lparr>journal_rows := (\<lambda>u. Inr fiveRows),
        genEnv := \<lparr>GEMINI_API_KEY = Some ''key'', resolvedModelName = ''models/gemini-2.0-flash'',
                   provider = Failed (Some 429) ''quota exceeded'' (Some 30)\<rparr>\<rparr>"

section \<open>The gate\<close>

lemma nonVentOf_sort_length:
  "length (nonVentOf (sort_key entryDate es)) = length (nonVentOf es)"
  by (simp add: nonVentOf_def filter_sort)

text \<open>
  C1. When fewer than four of the entries have \<open>ventEntry = false\<close>,
  \<open>generateJournalPatterns\<close> returns \<open>ok: true\<close> with \<open>shouldSpeak = false\<close>; with
  \<open>debug\<close> requested the reason recorded is \<open>not_enough_entries\<close>; and the list of
  provider calls is empty.
\<close>

theorem gate_not_enough_entries:
  assumes "length (filter (\<lambda>e. \<not> ventEntry e) entriesAll) < 4"
  shows "\<exists>v. generateJournalPatterns env entriesAll dbg = (Inr v, [])
             \<and> shouldSpeak v = False
             \<and> (if dbg then map_option reason (debug v) = Some not_enough_entries
                 else debug v = None)"
proof -
  let ?entries = "sort_key entryDate entriesAll"
  have few: "length (nonVentOf ?entries) < 4"
    using assms by (simp add: nonVentOf_sort_length) (simp add: nonVentOf_def)
  then have "\<not> shouldAttemptLongitudinalAnalysis ?entries"
    by (simp add: shouldAttemptLongitudinalAnalysis_def)
  with few show ?thesis
    by (simp add: generateJournalPatterns_def silent_def Let_def)
qed

theorem gate_not_enough_entries_witness:
  "\<exists>v. generateJournalPatterns (sampleEnv ''{}'') twoEntries True = (Inr v, [])
       \<and> shouldSpeak v = False
       \<and> map_option reason (debug v) = Some not_enough_entries"
proof -
  have "length (filter (\<lambda>e. \<not> ventEntry e) twoEntries) < 4"
    by (simp add: twoEntries_def)
  from gate_not_enough_entries [OF this, of "sampleEnv ''{}''" True]
  show ?thesis by simp
qed

section \<open>The loose parser on near-JSON\<close>

text \<open>
  C5. On the text \<open>{label: 'x', score: 1,}\<close> the strict parse fails, the parse of the
  repaired text succeeds, and \<open>tryParseJsonLoose\<close> yields the object that
  \<open>{"label":"x","score":1}\<close> denotes.
\<close>

theorem tryParseJsonLoose_near_json:
  \<open>JSON_parse ''{label: 'x', score: 1,}'' = None
   \<and> JSON_parse (repair ''{label: 'x', score: 1,}'')
       = Some (JObject [(''label'', JString ''x''), (''score'', JNumber 1)])
   \<and> tryParseJsonLoose ''{label: 'x', score: 1,}''
       = JObject [(''label'', JString ''x''), (''score'', JNumber 1)]
   \<and> JSON_parse ''{"label":"x","score":1}''
       = Some (tryParseJsonLoose ''{label: 'x', score: 1,}'')\<close>
  by code_simp

section \<open>The order of the candidates\<close>

lemma find_append_case:
  "find P (xs @ ys) = (case find P xs of None \<Rightarrow> find P ys | Some x \<Rightarrow> Some x)"
  by (induction xs) auto

lemma bestLoop_find:
  "bestLoop cs a =
     (case find candidateMatches cs of
        Some c \<Rightarrow> tryParseJsonLoose c
      | None \<Rightarrow> (case find candidateParses (rev cs) of
                   Some c \<Rightarrow> tryParseJsonLoose c
                 | None \<Rightarrow> a))"
proof (induction cs arbitrary: a)
  case Nil
  show ?case by simp
next
  case (Cons c cs)
  show ?case
  proof (cases "candidateParses c")
    case False
    then have "\<not> candidateMatches c"
      by (simp add: candidateMatches_def)
    moreover from False have "bestLoop (c # cs) a = bestLoop cs a"
      by (auto simp: candidateParses_def Let_def)
    ultimately show ?thesis
      using False Cons.IH [of a]
      by (simp add: find_append_case split: option.split)
  next
    case True
    show ?thesis
    proof (cases "candidateMatches c")
      case True
      then show ?thesis
        by (simp add: candidateMatches_def candidateParses_def Let_def)
    next
      case False
      with True have "bestLoop (c # cs) a = bestLoop cs (tryParseJsonLoose c)"
        by (auto simp: candidateMatches_def candidateParses_def Let_def)
      with True False Cons.IH [of "tryParseJsonLoose c"] show ?thesis
        by (simp add: find_append_case split: option.split)
    qed
  qed
qed

text \<open>
  C6. \<open>parseBestJsonFromModelText\<close> returns the parse of the first candidate, from the
  last one back to the first, that parses and matches the schema; when none matches, the
  parse of a candidate that parses (of several, the one that comes first in the text,
  which the loop visits last); and \<open>null\<close> when none parses.
\<close>

theorem parseBest_order:
  "parseBestJsonFromModelText text =
     (let candidates = extractJsonObjects (stripCodeFences text)
      in case find candidateMatches (rev candidates) of
           Some c \<Rightarrow> tryParseJsonLoose c
         | None \<Rightarrow> (case find candidateParses candidates of
                      Some c \<Rightarrow> tryParseJsonLoose c
                    | None \<Rightarrow> JNull))"
  by (simp add: parseBestJsonFromModelText_def Let_def bestLoop_find cong: option.case_cong)

theorem parseBest_order_witness:
  \<open>parseBestJsonFromModelText ''Like {"a":1} I say {"shouldSpeak":false,"timeRange":null,"reflection":null,"invitation":null} {"b":2}''
   = JObject [(''shouldSpeak'', JBool False), (''timeRange'', JNull), (''reflection'', JNull),
              (''invitation'', JNull)]
   \<and> parseBestJsonFromModelText ''{"a":1} and {b: 2,} and {''
     = JObject [(''a'', JNumber 1)]
   \<and> parseBestJsonFromModelText ''{ nothing here'' = JNull\<close>
  unfolding parseBest_order by code_simp

section \<open>The extracted objects\<close>

lemma find_map_Suc: "find P (map Suc xs) = map_option Suc (find (\<lambda>k. P (Suc k)) xs)"
  by (induction xs) auto

lemma closesAt_Suc:
  "Suc 0 \<le> k \<Longrightarrow> closesAt st (c # cs) (Suc k) = closesAt (scanStep st c) cs k"
  by (cases k) (auto simp: closesAt_def)

lemma closesAt_one:
  "closesAt st (c # cs) (Suc 0) = (c = CHR ''}'' \<and> fst st = Normal \<and> snd (scanStep st c) = 0)"
  by (auto simp: closesAt_def)

lemma firstClose_Cons:
  "firstClose st (c # cs) =
     (if c = CHR ''}'' \<and> fst st = Normal \<and> snd (scanStep st c) = 0 then Some (Suc 0)
      else map_option Suc (firstClose (scanStep st c) cs))"
proof -
  let ?ks = "[1..<Suc (length cs)]"
  have upt: "[1..<Suc (length (c # cs))] = Suc 0 # map Suc ?ks"
    by (simp add: upt_conv_Cons map_Suc_upt del: upt_Suc)
  have "\<And>k. k \<in> set ?ks \<Longrightarrow> closesAt st (c # cs) (Suc k) = closesAt (scanStep st c) cs k"
    by (rule closesAt_Suc) auto
  then have "find (\<lambda>k. closesAt st (c # cs) (Suc k)) ?ks = find (closesAt (scanStep st c) cs) ?ks"
    by (intro find_cong refl)
  then have tl: "find (\<lambda>k. closesAt st (c # cs) (Suc k)) ?ks = firstClose (scanStep st c) cs"
    by (simp only: firstClose_def)
  have step: "firstClose st (c # cs) =
          (if closesAt st (c # cs) (Suc 0) then Some (Suc 0)
           else map_option Suc (find (\<lambda>k. closesAt st (c # cs) (Suc k)) ?ks))"
    unfolding firstClose_def upt by (simp only: find.simps find_map_Suc)
  show ?thesis
    by (simp only: step tl closesAt_one)
qed

lemma scanClose_firstClose:
  "(escaping \<longrightarrow> inString) \<Longrightarrow> scanClose d inString escaping s = firstClose (enc inString escaping, d) s"
proof (induction s arbitrary: d inString escaping)
  case Nil
  show ?case by (simp add: firstClose_def)
next
  case (Cons c cs)
  show ?case
    using Cons.prems
    by (auto simp: firstClose_Cons enc_def Cons.IH dquote_def bslash_def)
qed

lemma trim_id:
  assumes "s \<noteq> []" "\<not> isWs (hd s)" "\<not> isWs (last s)"
  shows "trim s = s"
proof -
  from assms(1,2) have "dropWhile isWs s = s"
    by (cases s) simp_all
  moreover from assms(1,3) have "dropWhile isWs (rev s) = rev s"
    by (cases "rev s") (simp_all add: hd_rev [symmetric] del: rev_is_Nil_conv)
  ultimately show ?thesis
    by (simp add: trim_def)
qed

lemma firstClose_Some:
  assumes "firstClose st s = Some n"
  shows "0 < n \<and> n \<le> length s \<and> s ! (n - 1) = CHR ''}''"
  using assms by (auto simp: firstClose_def find_Some_iff closesAt_def)

lemma trim_object:
  assumes "firstClose st (CHR ''{'' # cs) = Some n"
  shows "trim (take n (CHR ''{'' # cs)) = take n (CHR ''{'' # cs)"
proof -
  let ?s = "CHR ''{'' # cs"
  from firstClose_Some [OF assms] have n: "0 < n" "n \<le> length ?s" "?s ! (n - 1) = CHR ''}''"
    by simp_all
  then have ne: "take n ?s \<noteq> []"
    by auto
  from n have "hd (take n ?s) = CHR ''{''"
    by (cases n) simp_all
  moreover from n ne have "last (take n ?s) = CHR ''}''"
    by (simp add: last_conv_nth min_def)
  ultimately show ?thesis
    using ne by (intro trim_id) (simp_all add: isWs_def cu_def)
qed

lemma extract_Cons:
  "extractJsonObjects (c # cs) =
     (case objectAt (c # cs) of Some p \<Rightarrow> [p] | None \<Rightarrow> []) @ extractJsonObjects cs"
proof (cases "c = CHR ''{''")
  case False
  then show ?thesis by (simp add: objectAt_def)
next
  case True
  have sc: "scanClose 0 False False (c # cs) = firstClose (Normal, 0) (c # cs)"
    using scanClose_firstClose [of False False 0 "c # cs"] by (simp add: enc_def)
  show ?thesis
  proof (cases "firstClose (Normal, 0) (c # cs)")
    case None
    with True sc show ?thesis
      by (simp add: objectAt_def)
  next
    case (Some n)
    with True have "trim (take n (c # cs)) = take n (c # cs)"
      using trim_object by simp
    with True sc Some show ?thesis
      by (simp add: objectAt_def)
  qed
qed

text \<open>
  C7, as amended. \<open>extractJsonObjects\<close> returns, in the order of their starts, the
  balanced object that begins at each opening brace of the text, when the scan started at
  that brace closes: the depth is counted outside double-quoted strings only, and a
  backslash inside a string escapes the next character. The objects nested in another
  object are returned too.
\<close>

theorem extractJsonObjects_every_start:
  "extractJsonObjects s = List.map_filter objectAt (suffixesOf s)"
proof (induction s)
  case Nil
  show ?case by (simp add: map_filter_simps)
next
  case (Cons c cs)
  show ?case
    by (simp only: extract_Cons Cons.IH suffixesOf.simps)
       (simp add: map_filter_simps split: option.split)
qed

theorem extractJsonObjects_every_start_witness:
  \<open>extractJsonObjects ''say {"a":"}"} or {"b":{"c":2}} {''
   = [''{"a":"}"}'', ''{"b":{"c":2}}'', ''{"c":2}'']\<close>
  unfolding extractJsonObjects_every_start by code_simp

text \<open>
  C7 as stated fails on a nested object: the text \<open>{"a":{"b":1}}\<close> has one top-level
  object, and \<open>extractJsonObjects\<close> returns two.
\<close>

theorem extractJsonObjects_nested_counterexample:
  \<open>extractJsonObjects ''{"a":{"b":1}}'' = [''{"a":{"b":1}}'', ''{"b":1}'']
   \<and> specTopLevelObjects ''{"a":{"b":1}}'' = [''{"a":{"b":1}}'']\<close>
  by code_simp

section \<open>The value returned\<close>

lemma interpretAttempt_shape:
  "invitation (interpretAttempt es dbg a) = None
   \<and> (if shouldSpeak (interpretAttempt es dbg a)
       then reflection (interpretAttempt es dbg a) \<noteq> None
            \<and> reflection (interpretAttempt es dbg a) \<noteq> Some []
       else reflection (interpretAttempt es dbg a) = None
            \<and> timeRange (interpretAttempt es dbg a) = None)"
  by (simp add: interpretAttempt_def silent_def bannedReflection_def silenceReflection_def Let_def
           split: model_attempt.split option.split prod.split)

text \<open>
  C3, as amended. In every successful value of \<open>generateJournalPatterns\<close> the invitation
  is null; when \<open>shouldSpeak\<close> is false, the reflection and the time range are null; when
  \<open>shouldSpeak\<close> is true, the reflection is a text that is not empty. (The time range may
  then be null.)
\<close>

theorem result_shape:
  assumes "generateJournalPatterns env entriesAll dbg = (Inr v, effs)"
  shows "invitation v = None
         \<and> (if shouldSpeak v then reflection v \<noteq> None \<and> reflection v \<noteq> Some []
             else reflection v = None \<and> timeRange v = None)"
proof (cases "shouldAttemptLongitudinalAnalysis (sort_key entryDate entriesAll)")
  case False
  with assms have "v = silent (debug v)"
    by (auto simp: generateJournalPatterns_def silent_def Let_def)
  then show ?thesis
    by (metis (no_types) silent_def pattern_value.select_convs(1,2,4,5))
next
  case True
  with assms have "v = interpretAttempt (sort_key entryDate entriesAll) dbg (runOnce env (resolvedModelName env))"
    by (auto simp: generateJournalPatterns_def Let_def split: if_splits)
  then show ?thesis
    using interpretAttempt_shape by simp
qed

lemma fiveEntries_gate: "shouldAttemptLongitudinalAnalysis (sort_key entryDate fiveEntries)"
  by code_simp

lemma fiveEntries_range:
  "describeTimeRange (computeSpanDays (nonVentOf (sort_key entryDate fiveEntries))) = ''over the past week''"
  by code_simp

lemma bannedReply_shaped:
  "modelResponseSchema (parseBestJsonFromModelText bannedReply)
   = Some \<lparr>mShouldSpeak = True, mTimeRange = Some ''over the past week'',
           mReflection = Some ''You should rest more.'', mThemes = [''sleep''],
           mInvitation = None\<rparr>"
  by code_simp

lemma repeatedThemesReply_shaped:
  "modelResponseSchema (parseBestJsonFromModelText repeatedThemesReply)
   = Some \<lparr>mShouldSpeak = True, mTimeRange = Some ''over the past week'',
           mReflection = Some ''Evenings recur.'',
           mThemes = [''tired'', ''tired'', ''sleep'', '' evenings ''],
           mInvitation = None\<rparr>"
  by code_simp

lemma bannedReply_result:
  "generateJournalPatterns (sampleEnv bannedReply) fiveEntries False
   = (Inr \<lparr>shouldSpeak = True, reflection = Some (bannedReflection ''over the past week''),
           themes = [], invitation = None, timeRange = Some ''over the past week'',
           debug = None\<rparr>,
      [ResolveModelName, GenerateContent ''models/gemini-2.0-flash''])"
  by code_simp

theorem result_shape_witness:
  "\<exists>v effs. generateJournalPatterns (sampleEnv bannedReply) fiveEntries False = (Inr v, effs)
       \<and> invitation v = None \<and> shouldSpeak v = True
       \<and> reflection v \<noteq> None \<and> reflection v \<noteq> Some []"
  using result_shape [OF bannedReply_result] bannedReply_result by simp

text \<open>
  C3 as stated fails when the model speaks and gives no time range: the value has
  \<open>shouldSpeak = true\<close> and a null \<open>timeRange\<close>.
\<close>

theorem spoke_without_timeRange_counterexample:
  "generateJournalPatterns (sampleEnv noTimeRangeReply) fiveEntries False
   = (Inr \<lparr>shouldSpeak = True, reflection = Some ''Evenings recur.'', themes = [],
           invitation = None, timeRange = None, debug = None\<rparr>,
      [ResolveModelName, GenerateContent ''models/gemini-2.0-flash''])"
  by code_simp

section \<open>Banned language\<close>

lemma includesStr_hd: "includesStr t p \<Longrightarrow> p \<noteq> [] \<Longrightarrow> hd p \<in> set t"
proof (induction t)
  case Nil
  then show ?case by simp
next
  case (Cons c cs)
  show ?case
  proof (cases "startsWith (c # cs) p")
    case True
    with Cons.prems(2) have "hd p = c"
      by (cases p) (auto simp: startsWith_def)
    then show ?thesis by simp
  next
    case False
    with Cons show ?thesis by simp
  qed
qed

lemma isWs_lowerChar: "isWs c \<Longrightarrow> lowerChar c = c"
  by (auto simp: isWs_def lowerChar_def Let_def)

lemma trim_nonblank: "c \<in> set s \<Longrightarrow> \<not> isWs c \<Longrightarrow> trim s \<noteq> []"
proof -
  assume c: "c \<in> set s" "\<not> isWs c"
  let ?d = "dropWhile isWs s"
  from c have ne: "?d \<noteq> []"
    by (auto simp: dropWhile_eq_Nil_conv)
  then have "\<not> isWs (hd ?d)"
    by (rule hd_dropWhile)
  moreover from ne have "hd ?d \<in> set (rev ?d)"
    by simp
  ultimately have "dropWhile isWs (rev ?d) \<noteq> []"
    by (auto simp: dropWhile_eq_Nil_conv)
  then show ?thesis
    by (simp add: trim_def)
qed

lemma banned_start: "b \<in> set BANNED_SUBSTRINGS \<Longrightarrow> b \<noteq> [] \<and> \<not> isWs (hd b)"
  by (auto simp: BANNED_SUBSTRINGS_def isWs_def cu_def)

lemma banned_nonblank:
  assumes "includesBannedLanguage s"
  shows "trim s \<noteq> []"
proof -
  from assms obtain b where b: "b \<in> set BANNED_SUBSTRINGS" "includesStr (toLowerCase s) b"
    by (auto simp: includesBannedLanguage_def list_ex_iff)
  from banned_start [OF b(1)] have nb: "b \<noteq> []" and nw: "\<not> isWs (hd b)"
    by simp_all
  from includesStr_hd [OF b(2) nb] obtain c where c: "c \<in> set s" "lowerChar c = hd b"
    by (auto simp: toLowerCase_def)
  with nw have "\<not> isWs c"
    using isWs_lowerChar by force
  with c(1) show ?thesis
    by (rule trim_nonblank)
qed

lemma sanitize_banned:
  "includesBannedLanguage (combinedText r ts) \<Longrightarrow> sanitizeOutput r ts = None"
  by (simp add: sanitizeOutput_def Let_def banned_nonblank)

lemma sanitize_clean:
  "\<not> includesBannedLanguage (combinedText r ts) \<Longrightarrow> sanitizeOutput r ts = Some (r, ts)"
  by (simp add: sanitizeOutput_def Let_def)

lemma schema_JNull: "modelResponseSchema JNull = None"
  by (simp add: modelResponseSchema_def)

lemma generate_after_gate:
  assumes "shouldAttemptLongitudinalAnalysis (sort_key entryDate entriesAll)"
    and "GEMINI_API_KEY env = Some k" and "k \<noteq> []"
  shows "generateJournalPatterns env entriesAll dbg
         = (Inr (interpretAttempt (sort_key entryDate entriesAll) dbg
                   (runOnce env (resolvedModelName env))),
            [ResolveModelName, GenerateContent (resolvedModelName env)])"
  using assms by (simp add: generateJournalPatterns_def Let_def)

text \<open>
  C8, as amended. When the gate lets the entries through, the key is configured, the
  provider replies, the reply parses and matches the schema, and the text of its
  reflection and themes, joined, holds a banned substring (compared in lower case), the
  value returned has \<open>shouldSpeak = true\<close>, the neutral reflection built from the time
  range of the span of the non-vent entries, that time range, and no themes. Without
  \<open>debug\<close> the value holds nothing else. With \<open>debug\<close> requested it holds the
  diagnostic record as well, with the reason \<open>banned_language\<close>, the length of the reply,
  and as preview the first 600 characters of \<open>stripCodeFences\<close> of the reply (the content
  of its first fenced block when it has one, the trimmed reply otherwise).
\<close>

theorem banned_language_replaced:
  assumes gate: "shouldAttemptLongitudinalAnalysis (sort_key entryDate entriesAll)"
    and key: "GEMINI_API_KEY env = Some k" "k \<noteq> []"
    and reply: "provider env = Replied text finishReason partsCount"
    and shaped: "modelResponseSchema (parseBestJsonFromModelText text) = Some parsed"
    and banned: "includesBannedLanguage (combinedText (mReflection parsed) (mThemes parsed))"
  shows "\<exists>v. generateJournalPatterns env entriesAll dbg
               = (Inr v, [ResolveModelName, GenerateContent (resolvedModelName env)])
             \<and> shouldSpeak v = True
             \<and> reflection v = Some (bannedReflection (describeTimeRange
                   (computeSpanDays (nonVentOf (sort_key entryDate entriesAll)))))
             \<and> timeRange v = Some (describeTimeRange
                   (computeSpanDays (nonVentOf (sort_key entryDate entriesAll))))
             \<and> themes v = []
             \<and> invitation v = None
             \<and> (if dbg
                 then map_option reason (debug v) = Some banned_language
                      \<and> map_option detail (debug v)
                          = Some (OutputDetail finishReason (length text)
                                    (take 600 (stripCodeFences text)))
                 else debug v = None)"
proof -
  from shaped have nn: "parseBestJsonFromModelText text \<noteq> JNull"
    using schema_JNull by force
  have "interpretAttempt (sort_key entryDate entriesAll) dbg (runOnce env (resolvedModelName env))
        = (let tr = describeTimeRange (computeSpanDays (nonVentOf (sort_key entryDate entriesAll)))
           in \<lparr>shouldSpeak = True, reflection = Some (bannedReflection tr), themes = [],
                invitation = None, timeRange = Some tr,
                debug = attemptDebug dbg banned_language (sort_key entryDate entriesAll)
                          (resolvedModelName env)
                          (OutputDetail finishReason (length text) (take 600 (stripCodeFences text)))\<rparr>)"
    using reply shaped nn sanitize_banned [OF banned]
    by (simp add: interpretAttempt_def runOnce_def Let_def)
  with generate_after_gate [OF gate key, of dbg] show ?thesis
    by (simp add: Let_def attemptDebug_def)
qed

theorem banned_language_replaced_witness:
  "\<exists>v. generateJournalPatterns (sampleEnv bannedReply) fiveEntries False
         = (Inr v, [ResolveModelName, GenerateContent ''models/gemini-2.0-flash''])
       \<and> shouldSpeak v = True
       \<and> reflection v = Some (bannedReflection ''over the past week'')
       \<and> timeRange v = Some ''over the past week''
       \<and> themes v = []
       \<and> invitation v = None
       \<and> debug v = None"
proof -
  have banned: "includesBannedLanguage
      (combinedText (mReflection \<lparr>mShouldSpeak = True, mTimeRange = Some ''over the past week'',
           mReflection = Some ''You should rest more.'', mThemes = [''sleep''],
           mInvitation = None\<rparr>) (mThemes \<lparr>mShouldSpeak = True, mTimeRange = Some ''over the past week'',
           mReflection = Some ''You should rest more.'', mThemes = [''sleep''],
           mInvitation = None\<rparr>))"
    by code_simp
  have key: "GEMINI_API_KEY (sampleEnv bannedReply) = Some ''key''" "''key'' \<noteq> []"
    by (simp_all add: sampleEnv_def)
  have reply: "provider (sampleEnv bannedReply) = Replied bannedReply (Some ''STOP'') (Some 1)"
    by (simp add: sampleEnv_def)
  from banned_language_replaced [OF fiveEntries_gate key reply bannedReply_shaped banned, of False]
  show ?thesis
    by (simp add: fiveEntries_range sampleEnv_def)
qed

text \<open>
  C8 as stated fails when \<open>debug\<close> is requested: on this reply, which has no fence and
  fewer than 600 characters, the reflection of the value is the neutral one and the
  preview in its diagnostic record is the whole reply, banned text and all.
\<close>

theorem banned_text_in_debug_preview_counterexample:
  "generateJournalPatterns (sampleEnv bannedReply) fiveEntries True
   = (Inr \<lparr>shouldSpeak = True, reflection = Some (bannedReflection ''over the past week''),
           themes = [], invitation = None, timeRange = Some ''over the past week'',
           debug = Some \<lparr>attempted = True, reason = banned_language, entriesCount = 4,
                         spanDays = Some 10, modelName = Some ''models/gemini-2.0-flash'',
                         detail = OutputDetail (Some ''STOP'') (length bannedReply) bannedReply\<rparr>\<rparr>,
      [ResolveModelName, GenerateContent ''models/gemini-2.0-flash''])
   \<and> includesStr bannedReply ''You should rest more.''
   \<and> includesBannedLanguage ''You should rest more.''"
  by code_simp

section \<open>The themes of a spoken reflection\<close>

text \<open>
  C10, as amended. When the gate lets the entries through, the key is configured, the
  provider replies, and the reply parses, matches the schema, holds no banned language,
  has \<open>shouldSpeak = true\<close> and a reflection that is not blank (not empty once
  trimmed), the value returned has \<open>shouldSpeak = true\<close>, that reflection trimmed, and
  as themes the model's themes, each trimmed, without the empty ones, in the model's
  order. (They are not deduplicated and their number is not capped.)
\<close>

theorem spoken_themes:
  assumes gate: "shouldAttemptLongitudinalAnalysis (sort_key entryDate entriesAll)"
    and key: "GEMINI_API_KEY env = Some k" "k \<noteq> []"
    and reply: "provider env = Replied text finishReason partsCount"
    and shaped: "modelResponseSchema (parseBestJsonFromModelText text) = Some parsed"
    and clean: "\<not> includesBannedLanguage (combinedText (mReflection parsed) (mThemes parsed))"
    and speaks: "mShouldSpeak parsed"
    and refl: "mReflection parsed = Some r" "trim r \<noteq> []"
  shows "\<exists>v. generateJournalPatterns env entriesAll dbg
               = (Inr v, [ResolveModelName, GenerateContent (resolvedModelName env)])
             \<and> shouldSpeak v = True
             \<and> reflection v = Some (trim r)
             \<and> themes v = filter (\<lambda>t. t \<noteq> []) (map trim (mThemes parsed))"
proof -
  from shaped have nn: "parseBestJsonFromModelText text \<noteq> JNull"
    using schema_JNull by force
  have "\<exists>tr d. interpretAttempt (sort_key entryDate entriesAll) dbg (runOnce env (resolvedModelName env))
        = \<lparr>shouldSpeak = True, reflection = Some (trim r),
           themes = filter (\<lambda>t. t \<noteq> []) (map trim (mThemes parsed)),
           invitation = None, timeRange = tr, debug = d\<rparr>"
    using reply shaped nn sanitize_clean [OF clean] speaks refl
    by (simp add: interpretAttempt_def runOnce_def Let_def)
  with generate_after_gate [OF gate key, of dbg] show ?thesis
    by auto
qed

theorem spoken_themes_witness:
  "\<exists>v. generateJournalPatterns (sampleEnv repeatedThemesReply) fiveEntries False
         = (Inr v, [ResolveModelName, GenerateContent ''models/gemini-2.0-flash''])
       \<and> shouldSpeak v = True
       \<and> reflection v = Some ''Evenings recur.''
       \<and> themes v = [''tired'', ''tired'', ''sleep'', ''evenings'']"
proof -
  have clean: "\<not> includesBannedLanguage
      (combinedText (mReflection \<lparr>mShouldSpeak = True, mTimeRange = Some ''over the past week'',
           mReflection = Some ''Evenings recur.'',
           mThemes = [''tired'', ''tired'', ''sleep'', '' evenings ''],
           mInvitation = None\<rparr>) (mThemes \<lparr>mShouldSpeak = True, mTimeRange = Some ''over the past week'',
           mReflection = Some ''Evenings recur.'',
           mThemes = [''tired'', ''tired'', ''sleep'', '' evenings ''],
           mInvitation = None\<rparr>))"
    by code_simp
  have key: "GEMINI_API_KEY (sampleEnv repeatedThemesReply) = Some ''key''" "''key'' \<noteq> []"
    by (simp_all add: sampleEnv_def)
  have reply: "provider (sampleEnv repeatedThemesReply) = Replied repeatedThemesReply (Some ''STOP'') (Some 1)"
    by (simp add: sampleEnv_def)
  have t1: "trim ''Evenings recur.'' = ''Evenings recur.''"
    by code_simp
  have t2: "trim ''tired'' = ''tired''" "trim ''sleep'' = ''sleep''" "trim '' evenings '' = ''evenings''"
    by code_simp+
  have speaks: "mShouldSpeak \<lparr>mShouldSpeak = True, mTimeRange = Some ''over the past week'',
           mReflection = Some ''Evenings recur.'',
           mThemes = [''tired'', ''tired'', ''sleep'', '' evenings ''],
           mInvitation = None\<rparr>"
    by simp
  have refl: "mReflection \<lparr>mShouldSpeak = True, mTimeRange = Some ''over the past week'',
           mReflection = Some ''Evenings recur.'',
           mThemes = [''tired'', ''tired'', ''sleep'', '' evenings ''],
           mInvitation = None\<rparr> = Some ''Evenings recur.''" "trim ''Evenings recur.'' \<noteq> []"
    by (simp_all add: t1)
  from spoken_themes [OF fiveEntries_gate key reply repeatedThemesReply_shaped clean speaks refl, of False]
  show ?thesis
    by (simp add: t1 t2 sampleEnv_def)
qed

text \<open>
  C10 as stated fails on a reply with four themes, one of them twice: all four are
  returned.
\<close>

theorem themes_not_deduplicated_counterexample:
  "generateJournalPatterns (sampleEnv repeatedThemesReply) fiveEntries False
   = (Inr \<lparr>shouldSpeak = True, reflection = Some ''Evenings recur.'',
           themes = [''tired'', ''tired'', ''sleep'', ''evenings''],
           invitation = None, timeRange = Some ''over the past week'', debug = None\<rparr>,
      [ResolveModelName, GenerateContent ''models/gemini-2.0-flash''])"
  by code_simp

section \<open>The selection of entries\<close>

text \<open>
  What holds of every selection: at most 30 entries, a total cost of at most 8000, at
  most six vent entries, and every selected entry is an entry of the input with its
  fields cut to the caps.
\<close>

lemma pickLoop_length: "length picked \<le> 30 \<Longrightarrow> length (pickLoop es picked used) \<le> 30"
  by (induction es arbitrary: picked used) (auto simp: Let_def)

lemma pickLoop_prefix: "\<exists>k. pickLoop es picked used = picked @ map bound (take k es)"
proof (induction es arbitrary: picked used)
  case Nil
  show ?case by simp
next
  case (Cons e es)
  show ?case
  proof (cases "30 \<le> length picked \<or> (0 < length picked \<and> 8000 < used + (40 + length (compactEntryText (bound e))))")
    case True
    then have "pickLoop (e # es) picked used = picked @ map bound (take 0 (e # es))"
      by (auto simp: Let_def)
    then show ?thesis by blast
  next
    case False
    then have "pickLoop (e # es) picked used
               = pickLoop es (picked @ [bound e]) (used + (40 + length (compactEntryText (bound e))))"
      by (auto simp: Let_def)
    moreover from Cons.IH obtain k where
      "pickLoop es (picked @ [bound e]) (used + (40 + length (compactEntryText (bound e))))
       = (picked @ [bound e]) @ map bound (take k es)"
      by blast
    ultimately have "pickLoop (e # es) picked used = picked @ map bound (take (Suc k) (e # es))"
      by simp
    then show ?thesis by blast
  qed
qed

lemma compactEntryText_length: "length (compactEntryText e) \<le> 901"
  by (simp add: compactEntryText_def Let_def)

lemma pickLoop_budget:
  "used = sum_list (map cost picked) \<Longrightarrow> used \<le> 8000
   \<Longrightarrow> sum_list (map cost (pickLoop es picked used)) \<le> 8000"
proof (induction es arbitrary: picked used)
  case Nil
  then show ?case by simp
next
  case (Cons e es)
  let ?c = "40 + length (compactEntryText (bound e))"
  show ?case
  proof (cases "30 \<le> length picked \<or> (0 < length picked \<and> 8000 < used + ?c)")
    case True
    with Cons.prems show ?thesis by (auto simp: Let_def)
  next
    case False
    then have eq: "pickLoop (e # es) picked used = pickLoop es (picked @ [bound e]) (used + ?c)"
      by (auto simp: Let_def)
    have "used + ?c \<le> 8000"
    proof (cases "picked = []")
      case True
      with Cons.prems compactEntryText_length [of "bound e"] show ?thesis by simp
    next
      case False
      with \<open>\<not> (30 \<le> length picked \<or> (0 < length picked \<and> 8000 < used + ?c))\<close>
      show ?thesis by simp
    qed
    moreover have "cost (bound e) = ?c"
      by (simp add: cost_def)
    then have "used + ?c = sum_list (map cost (picked @ [bound e]))"
      using Cons.prems(1) by simp
    ultimately show ?thesis
      unfolding eq by (rule Cons.IH [rotated])
  qed
qed

lemma filter_take_length: "length (filter P (take k xs)) \<le> length (filter P xs)"
proof -
  have "length (filter P xs) = length (filter P (take k xs)) + length (filter P (drop k xs))"
    by (metis append_take_drop_id filter_append length_append)
  then show ?thesis by simp
qed

lemma selectEntries_bounds:
  "length (selectEntriesForModel es) \<le> 30
   \<and> sum_list (map cost (selectEntriesForModel es)) \<le> 8000
   \<and> length (filter ventEntry (selectEntriesForModel es)) \<le> 6
   \<and> set (selectEntriesForModel es) \<subseteq> bound ` set es"
proof -
  define cands where "cands = rev (filter (\<lambda>e. \<not> ventEntry e) es) @ take 6 (rev (filter ventEntry es))"
  obtain k where "pickLoop cands [] 0 = map bound (take k cands)"
    using pickLoop_prefix [of cands "[]" 0] by auto
  moreover define picked where "picked = take k cands"
  ultimately have k: "pickLoop cands [] 0 = map bound picked"
    by simp
  have sel: "selectEntriesForModel es = rev (pickLoop cands [] 0)"
    by (simp add: selectEntriesForModel_def Let_def cands_def)
  have a: "length (selectEntriesForModel es) \<le> 30"
    unfolding sel using pickLoop_length [of "[]" cands 0] by simp
  have "sum_list (map cost (pickLoop cands [] 0)) \<le> 8000"
    by (rule pickLoop_budget) simp_all
  then have b: "sum_list (map cost (selectEntriesForModel es)) \<le> 8000"
    unfolding sel by (simp add: rev_map [symmetric])
  have vb: "ventEntry (bound e) = ventEntry e" for e
    by (simp add: bound_def)
  have "length (filter ventEntry (rev (map bound picked))) = length (filter ventEntry picked)"
    by (simp add: filter_map comp_def vb flip: rev_filter)
  also have "\<dots> \<le> length (filter ventEntry cands)"
    unfolding picked_def by (rule filter_take_length)
  also have "\<dots> = length (filter ventEntry (take 6 (rev (filter ventEntry es))))"
    by (simp add: cands_def filter_empty_conv flip: rev_filter)
  also have "\<dots> \<le> 6"
    by (rule order_trans [OF length_filter_le]) simp
  finally have c: "length (filter ventEntry (selectEntriesForModel es)) \<le> 6"
    unfolding sel k .
  have "set picked \<subseteq> set cands"
    unfolding picked_def by (rule set_take_subset)
  moreover have "set cands \<subseteq> set es"
    using set_take_subset [of 6 "rev (filter ventEntry es)"] by (auto simp: cands_def)
  ultimately have d: "set (selectEntriesForModel es) \<subseteq> bound ` set es"
    unfolding sel k by auto
  from a b c d show ?thesis by simp
qed

text \<open>
  C9. The claim's last part, that the selection is returned oldest to newest by
  \<open>entryDate\<close>, is what the source's comment on the final \<open>reverse()\<close> says too, and it
  fails as soon as a vent entry is newer than a non-vent entry: the non-vent entries come
  first in the list that is reversed, so the vent entries come out ahead of all of them.
  Here the input is sorted and holds a vent entry of 4 January among non-vent entries
  of 1 to 11 January.
\<close>

theorem selectEntries_not_oldest_first:
  "sorted (map entryDate fiveEntries)
   \<and> map entryDate (selectEntriesForModel fiveEntries)
       = [''2024-01-04'', ''2024-01-01'', ''2024-01-03'', ''2024-01-05'', ''2024-01-11'']
   \<and> \<not> sorted (map entryDate (selectEntriesForModel fiveEntries))"
  by code_simp

section \<open>The cache\<close>

text \<open>
  C4, as amended. On a request that does not ask for a refresh, for a signed-in user
  whose rows were read, when the cache holds an entry for the user whose fingerprint is
  that of the rows and whose age is from 0 to 300000 ms, the handler answers the cached
  value, leaves the cache as it is and calls no provider. Outside debug mode the answer
  is the cached value itself; in debug mode (not in production, \<open>debug=1\<close>) it is the
  cached value with \<open>debugMeta\<close> and \<open>cacheMeta\<close> added.
\<close>

theorem cache_hit:
  assumes token: "getBearerToken (authorization req) = Some token"
    and user: "getUser w token = User uid"
    and rows: "journal_rows w uid = Inr rows"
    and norefresh: "\<not> refreshParam req"
    and cached: "cache uid = Some c"
    and same: "fingerprint c = computeEntriesFingerprint rows"
    and age: "0 \<le> nowAtLookup w - atMs c" "nowAtLookup w - atMs c \<le> 5 * 60 * 1000"
  shows "GET w cache req =
           (if \<not> production w \<and> debugParam req
            then \<lparr>status = 200,
                  payload = PatternsWithMeta (cachedValue c) (metaOf rows)
                              (Some \<lparr>servedFromCache = True,
                                     ageSeconds = (nowAtLookup w - atMs c) div 1000,
                                     entriesFingerprint = Some (fingerprint c)\<rparr>)\<rparr>
            else \<lparr>status = 200, payload = Patterns (cachedValue c)\<rparr>,
            cache, [])"
proof -
  from age have "fresh c (nowAtLookup w)"
    by (simp add: fresh_def CACHE_TTL_MS_def)
  with token user rows norefresh cached same show ?thesis
    by (simp add: GET_def serveCached_def Let_def)
qed

lemma sampleRequest_token: "getBearerToken (authorization (sampleRequest dbg)) = Some ''token-1''"
  unfolding sampleRequest_def by code_simp

theorem cache_hit_witness:
  "GET (sampleWorld True) (cacheWith 1700000000000 (computeEntriesFingerprint twoRows) goodValue)
     (sampleRequest False)
   = (\<lparr>status = 200, payload = Patterns goodValue\<rparr>,
      cacheWith 1700000000000 (computeEntriesFingerprint twoRows) goodValue, [])"
proof -
  let ?c = "\<lparr>atMs = 1700000000000, fingerprint = computeEntriesFingerprint twoRows,
             cachedValue = goodValue\<rparr>"
  have "GET (sampleWorld True) (cacheWith 1700000000000 (computeEntriesFingerprint twoRows) goodValue)
          (sampleRequest False)
        = (if \<not> production (sampleWorld True) \<and> debugParam (sampleRequest False)
            then \<lparr>status = 200,
                  payload = PatternsWithMeta (cachedValue ?c) (metaOf twoRows)
                              (Some \<lparr>servedFromCache = True,
                                     ageSeconds = (nowAtLookup (sampleWorld True) - atMs ?c) div 1000,
                                     entriesFingerprint = Some (fingerprint ?c)\<rparr>)\<rparr>
            else \<lparr>status = 200, payload = Patterns (cachedValue ?c)\<rparr>,
            cacheWith 1700000000000 (computeEntriesFingerprint twoRows) goodValue, [])"
    by (rule cache_hit [OF sampleRequest_token])
       (simp_all add: sampleWorld_def sampleRequest_def cacheWith_def)
  then show ?thesis
    by (simp add: sampleWorld_def)
qed

text \<open>
  C4 as stated fails on a debug request: the answer is not the cached value verbatim.
\<close>

theorem cache_hit_debug_counterexample:
  "fst (GET (sampleWorld False)
          (cacheWith 1700000000000 (computeEntriesFingerprint twoRows) goodValue)
          (sampleRequest True))
   = \<lparr>status = 200,
      payload = PatternsWithMeta goodValue
                  \<lparr>totalCount = 2, ventCount = 0, nonVentCount = 2\<rparr>
                  (Some \<lparr>servedFromCache = True, ageSeconds = 60,
                         entriesFingerprint = Some (computeEntriesFingerprint twoRows)\<rparr>)\<rparr>
   \<and> fst (GET (sampleWorld False)
            (cacheWith 1700000000000 (computeEntriesFingerprint twoRows) goodValue)
            (sampleRequest True))
     \<noteq> \<lparr>status = 200, payload = Patterns goodValue\<rparr>"
  by code_simp

text \<open>
  When the outcome is silent and the user's cached entry is fresh, the handler serves
  the cached value and leaves the cache as it is.
\<close>

lemma silent_outcome_served_from_cache:
  assumes token: "getBearerToken (authorization req) = Some token"
    and user: "getUser w token = User uid"
    and rows: "journal_rows w uid = Inr rows"
    and miss: "refreshParam req \<or> fingerprint c \<noteq> computeEntriesFingerprint rows
               \<or> \<not> fresh c (nowAtLookup w)"
    and cached: "cache uid = Some c"
    and outcome: "generateJournalPatterns (genEnv w) (rev (map rowToEntry rows))
                    (\<not> production w \<and> debugParam req) = (Inr v, effs)"
    and silence: "isEmptySilence v"
    and age: "fresh c (nowAtFallback w)"
  shows "GET w cache req
         = (serveCached (\<not> production w \<and> debugParam req) rows c (nowAtFallback w) None, cache, effs)"
  using assms by (auto simp: GET_def generateAndStore_def Let_def)

text \<open>
  C2. A silent outcome is stored all the same when the user has no fresh entry: the
  handler falls through to \<open>patternsCacheByUser.set\<close>, although the comments there say
  that the cache is not overwritten and that non-empty results are cached. Two requests
  show it. A user with two entries (the gate answers silence) and an empty cache: the
  silent value is stored. A user with the five sample entries, a good cached value older
  than the TTL and a provider that fails with status 429: the silent value replaces the
  good one.
\<close>

theorem silent_outcome_is_cached:
  "fst (GET (sampleWorld True) Map.empty (sampleRequest False))
     = \<lparr>status = 200, payload = Patterns (silent None)\<rparr>
   \<and> fst (snd (GET (sampleWorld True) Map.empty (sampleRequest False))) ''user-1''
     = Some \<lparr>atMs = 1700000061000, fingerprint = computeEntriesFingerprint twoRows,
             cachedValue = silent None\<rparr>
   \<and> fst (GET failingWorld
            (cacheWith 1699990000000 (computeEntriesFingerprint fiveRows) goodValue)
            (sampleRequest False))
     = \<lparr>status = 200, payload = Patterns (silent None)\<rparr>
   \<and> fst (snd (GET failingWorld
                 (cacheWith 1699990000000 (computeEntriesFingerprint fiveRows) goodValue)
                 (sampleRequest False))) ''user-1''
     = Some \<lparr>atMs = 1700000061000, fingerprint = computeEntriesFingerprint fiveRows,
             cachedValue = silent None\<rparr>
   \<and> snd (snd (GET failingWorld
                 (cacheWith 1699990000000 (computeEntriesFingerprint fiveRows) goodValue)
                 (sampleRequest False)))
     = [ResolveModelName, GenerateContent ''models/gemini-2.0-flash'']
   \<and> isEmptySilence (silent None)"
  by code_simp

end
